theory Spec2Isabelle
  imports Main "HOL-Library.Word"
begin

unbundle bit_operations_syntax

section \<open>Quantum Based Allocation (qba.cpp): a sequential model\<close>

text \<open>
  The model follows \<^verbatim>\<open>src/hotspot/share/runtime/qba.cpp\<close>. A \<^verbatim>\<open>uint64_t\<close> and an
  address are 64-bit words; a C \<^verbatim>\<open>int\<close> (bit and word indexes, orders, counts) is an
  \<open>int\<close>, \<^verbatim>\<open>NOT_FOUND\<close> being \<open>-1\<close> as in the source. The model is sequential: one
  thread runs each operation to completion, so a compare-exchange whose expected value was
  just loaded succeeds. Where a failing compare-exchange is the subject (the rollback of
  \<^verbatim>\<open>conditionallySetMaskRange\<close>), its outcome is a parameter.

  An access outside a C array, and a shift by a negative amount or by 64 and more, are
  undefined behaviour in C; the model reports them as a \<open>fault\<close>.
\<close>

subsection \<open>Global constants\<close>

type_synonym u64 = "64 word"
type_synonym address = "64 word"

datatype fault =
    WordIndexOutOfRange int
  | ShiftOutOfRange int
  | OrderOutOfRange int
  | PartitionIndexOutOfRange int
  | SlabIndexOutOfRange int
  | StatsIndexOutOfRange int
  | NullPointer
  | BufferIndexOutOfRange int
  | OutOfFuel
  | BadCast

definition bindF :: "fault + 'a \<Rightarrow> ('a \<Rightarrow> fault + 'b) \<Rightarrow> fault + 'b" where
  "bindF m f = (case m of Inl e \<Rightarrow> Inl e | Inr x \<Rightarrow> f x)"

definition NOT_FOUND :: int where "NOT_FOUND = -1"

definition ZERO :: u64 where "ZERO = 0"
definition ALL_ONES :: u64 where "ALL_ONES = NOT ZERO"

definition K :: u64 where "K = 1024"
definition M :: u64 where "M = K * K"

definition BYTES_PER_WORD :: int where "BYTES_PER_WORD = 8"
definition BITS_PER_WORD_ORDER :: int where "BITS_PER_WORD_ORDER = 6"
definition BITS_PER_WORD :: int where "BITS_PER_WORD = 64"
definition PAGE_SIZE_ORDER :: int where "PAGE_SIZE_ORDER = 12"
definition PAGE_SIZE :: u64 where "PAGE_SIZE = 4096"
definition MAX_ADDRESS_ORDER :: int where "MAX_ADDRESS_ORDER = 52"
definition MAX_ALLOCATION_ORDER :: int where "MAX_ALLOCATION_ORDER = MAX_ADDRESS_ORDER - 4"
definition MAX_ORDER :: int where "MAX_ORDER = BITS_PER_WORD"
definition MAX_ALLOCATION_SIZE :: u64 where
  "MAX_ALLOCATION_SIZE = push_bit (nat MAX_ALLOCATION_ORDER) 1"
definition MAX_PARTITION_QUANTUM :: int where "MAX_PARTITION_QUANTUM = 16 * 1024"
definition MAX_QUANTUM_ALLOCATORS :: int where "MAX_QUANTUM_ALLOCATORS = 3"
definition MAX_REGISTRY_BIT_COUNT :: int where "MAX_REGISTRY_BIT_COUNT = MAX_PARTITION_QUANTUM"
definition MAX_REGISTRY_WORD_COUNT :: int where
  "MAX_REGISTRY_WORD_COUNT = MAX_REGISTRY_BIT_COUNT div 2 ^ nat BITS_PER_WORD_ORDER"
definition MAX_QUANTUM_ALLOCATOR_ORDERS :: int where "MAX_QUANTUM_ALLOCATOR_ORDERS = 8"
definition SMALLEST_SIZE_ORDER :: int where "SMALLEST_SIZE_ORDER = 3"
definition LARGEST_SIZE_ORDER :: int where
  "LARGEST_SIZE_ORDER =
     SMALLEST_SIZE_ORDER + MAX_QUANTUM_ALLOCATORS * MAX_QUANTUM_ALLOCATOR_ORDERS - 1"
definition QB_STATS_SIZE :: int where "QB_STATS_SIZE = 64"

subsection \<open>Bit twiddling utility functions\<close>

text \<open>
  \<^verbatim>\<open>__builtin_clzll\<close>, \<^verbatim>\<open>__builtin_ctzll\<close> and \<^verbatim>\<open>__builtin_popcountll\<close> are compiler
  builtins; they are written out as scans over the 64 bits. \<open>clz\<close>, \<open>ctz\<close> wrap them
  with the zero case of the source (64).
\<close>

fun leading_zeros :: "nat \<Rightarrow> u64 \<Rightarrow> nat" where
  "leading_zeros 0 w = 0"
| "leading_zeros (Suc n) w = (if bit w n then 0 else Suc (leading_zeros n w))"

fun trailing_zeros :: "nat \<Rightarrow> u64 \<Rightarrow> nat" where
  "trailing_zeros 0 w = 0"
| "trailing_zeros (Suc n) w = (if bit w 0 then 0 else Suc (trailing_zeros n (drop_bit 1 w)))"

fun set_bits :: "nat \<Rightarrow> u64 \<Rightarrow> nat" where
  "set_bits 0 w = 0"
| "set_bits (Suc n) w = (if bit w n then 1 else 0) + set_bits n w"

definition clz :: "u64 \<Rightarrow> int" where
  "clz v = (if v \<noteq> 0 then int (leading_zeros 64 v) else BITS_PER_WORD)"

definition ctz :: "u64 \<Rightarrow> int" where
  "ctz v = (if v \<noteq> 0 then int (trailing_zeros 64 v) else BITS_PER_WORD)"

definition popcount :: "u64 \<Rightarrow> int" where
  "popcount v = (if v \<noteq> 0 then int (set_bits 64 v) else 0)"

text \<open>\<^verbatim>\<open>1UL << order\<close>, defined for \<open>0 \<le> order < 64\<close>.\<close>

definition twoToOrder :: "int \<Rightarrow> u64" where
  "twoToOrder order = push_bit (nat order) 1"

text \<open>The same shift with the undefined cases reported.\<close>

definition shiftLeft :: "u64 \<Rightarrow> int \<Rightarrow> fault + u64" where
  "shiftLeft v n =
     (if 0 \<le> n \<and> n < BITS_PER_WORD then Inr (push_bit (nat n) v) else Inl (ShiftOutOfRange n))"

definition MASK :: "u64 \<Rightarrow> u64" where
  "MASK p = p - 1"

definition loMask :: "int \<Rightarrow> fault + u64" where
  "loMask n = bindF (shiftLeft 1 n) (\<lambda>p. Inr (MASK p))"

definition hiMask :: "int \<Rightarrow> fault + u64" where
  "hiMask n = bindF (loMask (BITS_PER_WORD - n)) (\<lambda>m. Inr (NOT m))"

definition isPowerOf2 :: "u64 \<Rightarrow> bool" where
  "isPowerOf2 v = (v AND MASK v = ZERO)"

definition roundUp :: "u64 \<Rightarrow> u64 \<Rightarrow> u64" where
  "roundUp v powerOf2 = (let mask = MASK powerOf2 in (v + mask) AND NOT mask)"

definition roundUpPowerOf2 :: "u64 \<Rightarrow> u64" where
  "roundUpPowerOf2 v =
     (if v \<noteq> 0 then push_bit (nat (BITS_PER_WORD - clz (v - 1))) 1 else ZERO)"

definition sizeToOrder :: "u64 \<Rightarrow> int" where
  "sizeToOrder sz = (if 8 < sz then BITS_PER_WORD - clz (sz - 1) else 3)"

definition orderToSize :: "int \<Rightarrow> u64" where
  "orderToSize order = push_bit (nat order) 1"

definition orderMul :: "u64 \<Rightarrow> int \<Rightarrow> u64" where
  "orderMul v order = push_bit (nat order) v"

text \<open>\<^verbatim>\<open>(int)(value >> order)\<close>: the low 32 bits, read as a signed value.\<close>

definition orderDiv :: "u64 \<Rightarrow> int \<Rightarrow> int" where
  "orderDiv v order = sint (ucast (drop_bit (nat order) v) :: 32 word)"

definition lowestZeroBit :: "u64 \<Rightarrow> u64" where
  "lowestZeroBit v = (let inverse = NOT v in inverse AND - inverse)"


lemma bindF_cong [fundef_cong]:
  "m = m' \<Longrightarrow> (\<And>x. m' = Inr x \<Longrightarrow> f x = f' x) \<Longrightarrow> bindF m f = bindF m' f'"
  by (auto simp: bindF_def split: sum.splits)

lemma bindF_Inr [simp]: "bindF (Inr x) f = f x"
  by (simp add: bindF_def)

lemma bindF_Inl [simp]: "bindF (Inl e) f = Inl e"
  by (simp add: bindF_def)

lemma word_or_self_sub:
  fixes v x :: u64
  shows "v OR x = v \<Longrightarrow> x AND NOT v = 0"
  by (metis (no_types, lifting) and.commute and.left_commute
      bit.conj_cancel_left bit.conj_zero_right word_ao_absorbs(1))

lemma word_or_absorb_right:
  fixes v x b :: u64
  shows "v = x OR b \<Longrightarrow> b AND v = b"
  by simp

lemma lowest_bit_nonzero:
  fixes n :: u64
  assumes "n \<noteq> 0"
  shows "n AND - n \<noteq> 0"
proof
  assume "n AND - n = 0"
  then have "n AND NOT (n - 1) = 0"
    by (simp add: minus_eq_not_minus_1)
  then have "n AND (n - 1) = n"
    by (metis add.right_inverse and.commute and_zero_eq disjunctive_add_eq_or
        minus_eq_not_minus_1 word_ao_absorbs(3))
  then have "n \<le> n - 1"
    by (metis word_and_le1)
  with assms show False
    by (simp add: less_eq_dec_triv_imp)
qed

lemma lowestZeroBit_grows:
  fixes v :: u64
  assumes "v \<noteq> ALL_ONES"
  shows "v OR (v - lowestZeroBit v) \<noteq> v"
proof
  let ?n = "NOT v"
  let ?b = "lowestZeroBit v"
  let ?x = "v - ?b"
  assume eq: "v OR ?x = v"
  have n0: "?n \<noteq> 0"
    using assms unfolding ALL_ONES_def ZERO_def by (metis bit.compl_zero word_not_not)
  have b_def: "?b = ?n AND - ?n"
    by (simp add: lowestZeroBit_def Let_def)
  have bv: "?b AND v = 0"
    unfolding b_def
    by (metis (no_types, lifting) and.assoc and.commute word_and_not zero_and_eq)
  have "?x AND ?n = 0"
    using eq by (rule word_or_self_sub)
  then have xb: "?x AND ?b = 0"
    unfolding b_def by (metis (no_types, lifting) and.assoc zero_and_eq)
  have "?x + ?b = ?x OR ?b"
    using xb by (metis disjunctive_add_eq_or)
  then have "v = ?x OR ?b"
    by simp
  then have "?b AND v = ?b"
    by (rule word_or_absorb_right)
  with bv have "?b = 0"
    by simp
  with lowest_bit_nonzero [OF n0] show False
    by (simp add: b_def)
qed

lemma lowestZeroBit_measure:
  fixes v :: u64
  assumes "v \<noteq> ALL_ONES"
  shows "2 ^ 64 - unat (v OR (v - lowestZeroBit v)) < 2 ^ 64 - unat v"
proof -
  have "v \<le> v OR (v - lowestZeroBit v)"
    by (rule le_word_or2)
  with lowestZeroBit_grows [OF assms] have "v < v OR (v - lowestZeroBit v)"
    by simp
  then have "unat v < unat (v OR (v - lowestZeroBit v))"
    by (simp add: word_less_nat_alt)
  moreover have "unat (v OR (v - lowestZeroBit v)) < 2 ^ 64"
    using unsigned_less [of "v OR (v - lowestZeroBit v)", where ?'a = nat] by simp
  ultimately show ?thesis
    by arith
qed

text \<open>
  \<^verbatim>\<open>lowestZeroBitsPosition\<close>: the bit index of the lowest run of \<open>n\<close> zero bits, or
  \<^verbatim>\<open>NOT_FOUND\<close>. The shift \<^verbatim>\<open>lowestBit << n\<close> is undefined for \<open>n = 64\<close>.
\<close>

function lowestZeroBitsPosition :: "u64 \<Rightarrow> int \<Rightarrow> fault + int" where
  "lowestZeroBitsPosition v n =
     (if v \<noteq> ALL_ONES then
        (let lowestBit = lowestZeroBit v in
         case shiftLeft lowestBit n of
           Inl e \<Rightarrow> Inl e
         | Inr shifted \<Rightarrow>
             (let rangeMask = shifted - lowestBit in
              if v AND rangeMask = 0 then Inr (BITS_PER_WORD - 1 - clz lowestBit)
              else lowestZeroBitsPosition (v OR (v - lowestBit)) n))
      else Inr NOT_FOUND)"
  by pat_completeness auto
termination
  by (relation "measure (\<lambda>(v, n). 2 ^ 64 - unat v)") (use lowestZeroBit_measure in auto)

declare lowestZeroBitsPosition.simps [simp del]

subsection \<open>Registry: the atomic bitmap\<close>

text \<open>
  \<^verbatim>\<open>_bits\<close> is the C array of \<^verbatim>\<open>MAX_REGISTRY_WORD_COUNT\<close> words; reading or writing a word
  outside it is a fault. The constant members \<^verbatim>\<open>_maximumIndex\<close> and
  \<^verbatim>\<open>_maximumWordIndex\<close> never change after construction.
\<close>

record Registry =
  maximumIndex :: int
  maximumWordIndex :: int
  lowestIndex :: int
  bits :: "u64 list"

definition getWordIndex :: "int \<Rightarrow> int" where
  "getWordIndex i = i div 2 ^ nat BITS_PER_WORD_ORDER"

definition getBitIndex :: "int \<Rightarrow> int" where
  "getBitIndex i = i mod 64"

definition getIndex :: "int \<Rightarrow> int \<Rightarrow> int" where
  "getIndex wordIndex bitIndex = wordIndex * 2 ^ nat BITS_PER_WORD_ORDER + bitIndex"

definition wordsNeeded :: "int \<Rightarrow> int" where
  "wordsNeeded n = orderDiv (word_of_int (n + BITS_PER_WORD) - 1) BITS_PER_WORD_ORDER"

definition Registry_default :: Registry where
  "Registry_default =
     \<lparr>maximumIndex = 0, maximumWordIndex = 0, lowestIndex = 0,
      bits = replicate (nat MAX_REGISTRY_WORD_COUNT) 0\<rparr>"

definition Registry_new :: "int \<Rightarrow> Registry" where
  "Registry_new n =
     \<lparr>maximumIndex = n, maximumWordIndex = wordsNeeded n, lowestIndex = 0,
      bits = replicate (nat MAX_REGISTRY_WORD_COUNT) 0\<rparr>"

definition getBits :: "Registry \<Rightarrow> int \<Rightarrow> fault + u64" where
  "getBits r wordIndex =
     (if 0 \<le> wordIndex \<and> wordIndex < int (length (bits r)) then Inr (bits r ! nat wordIndex)
      else Inl (WordIndexOutOfRange wordIndex))"

text \<open>
  \<^verbatim>\<open>compare_exchange_weak(existing, value)\<close> on a word. \<open>succeeds\<close> says whether the
  exchange goes through when the word still holds \<open>existing\<close>; in a sequential run it
  does.
\<close>

definition swapBits :: "bool \<Rightarrow> Registry \<Rightarrow> int \<Rightarrow> u64 \<Rightarrow> u64 \<Rightarrow> fault + (bool \<times> Registry)" where
  "swapBits succeeds r wordIndex existing v =
     (if 0 \<le> wordIndex \<and> wordIndex < int (length (bits r)) then
        (if succeeds \<and> bits r ! nat wordIndex = existing
         then Inr (True, r\<lparr>bits := (bits r)[nat wordIndex := v]\<rparr>)
         else Inr (False, r))
      else Inl (WordIndexOutOfRange wordIndex))"

definition andBits :: "Registry \<Rightarrow> int \<Rightarrow> u64 \<Rightarrow> fault + (u64 \<times> Registry)" where
  "andBits r wordIndex v =
     (if 0 \<le> wordIndex \<and> wordIndex < int (length (bits r)) then
        Inr (bits r ! nat wordIndex,
             r\<lparr>bits := (bits r)[nat wordIndex := bits r ! nat wordIndex AND v]\<rparr>)
      else Inl (WordIndexOutOfRange wordIndex))"

definition orBits :: "Registry \<Rightarrow> int \<Rightarrow> u64 \<Rightarrow> fault + (u64 \<times> Registry)" where
  "orBits r wordIndex v =
     (if 0 \<le> wordIndex \<and> wordIndex < int (length (bits r)) then
        Inr (bits r ! nat wordIndex,
             r\<lparr>bits := (bits r)[nat wordIndex := bits r ! nat wordIndex OR v]\<rparr>)
      else Inl (WordIndexOutOfRange wordIndex))"

definition setMask :: "Registry \<Rightarrow> int \<Rightarrow> u64 \<Rightarrow> fault + (bool \<times> Registry)" where
  "setMask r wordIndex msk =
     (if msk = 0 then Inr (True, r)
      else bindF (orBits r wordIndex msk) (\<lambda>(old, r'). Inr (old AND msk = ZERO, r')))"

definition clearMask :: "Registry \<Rightarrow> int \<Rightarrow> u64 \<Rightarrow> fault + (bool \<times> Registry)" where
  "clearMask r wordIndex msk =
     (if msk = 0 then Inr (True, r)
      else bindF (andBits r wordIndex (NOT msk)) (\<lambda>(old, r'). Inr (old AND msk \<noteq> ZERO, r')))"

definition isSet :: "Registry \<Rightarrow> int \<Rightarrow> fault + bool" where
  "isSet r i =
     (let wordIndex = getWordIndex i; bitIndex = getBitIndex i; b = twoToOrder bitIndex
      in bindF (getBits r wordIndex) (\<lambda>v. Inr (v AND b \<noteq> 0)))"

definition set_bit_at :: "Registry \<Rightarrow> int \<Rightarrow> fault + (bool \<times> Registry)" where
  "set_bit_at r i = setMask r (getWordIndex i) (twoToOrder (getBitIndex i))"

definition clear_bit_at :: "Registry \<Rightarrow> int \<Rightarrow> fault + (bool \<times> Registry)" where
  "clear_bit_at r i = clearMask r (getWordIndex i) (twoToOrder (getBitIndex i))"

text \<open>
  \<^verbatim>\<open>conditionallySetMask(wordIndex, msk)\<close>: the word is loaded first, then exchanged for
  \<open>value | mask\<close> unless the msk is empty.
\<close>

definition conditionallySetMask :: "bool \<Rightarrow> Registry \<Rightarrow> int \<Rightarrow> u64 \<Rightarrow> fault + (bool \<times> Registry)" where
  "conditionallySetMask succeeds r wordIndex msk =
     bindF (getBits r wordIndex) (\<lambda>v.
       if msk \<noteq> 0 then swapBits succeeds r wordIndex v (v OR msk) else Inr (True, r))"

function clearMiddleWords :: "Registry \<Rightarrow> int \<Rightarrow> int \<Rightarrow> int \<Rightarrow> fault + Registry" where
  "clearMiddleWords r firstWordIndex n i =
     (if i < n then
        bindF (clearMask r (firstWordIndex + i + 1) ALL_ONES) (\<lambda>(_, r').
          clearMiddleWords r' firstWordIndex n (i + 1))
      else Inr r)"
  by pat_completeness auto
termination
  by (relation "measure (\<lambda>(r, f, n, i). nat (n - i))") auto

declare clearMiddleWords.simps [simp del]

definition clearMaskRange :: "Registry \<Rightarrow> int \<Rightarrow> int \<Rightarrow> u64 \<Rightarrow> u64 \<Rightarrow> fault + Registry" where
  "clearMaskRange r firstWordIndex n firstMask lastMask =
     bindF (clearMask r firstWordIndex firstMask) (\<lambda>(_, r1).
     bindF (clearMiddleWords r1 firstWordIndex n 0) (\<lambda>r2.
     bindF (clearMask r2 (firstWordIndex + n + 1) lastMask) (\<lambda>(_, r3). Inr r3)))"

text \<open>
  \<^verbatim>\<open>conditionallySetMaskRange\<close>. \<open>cas w\<close> is the outcome of the compare-exchange on word
  \<open>w\<close>; every word is attempted at most once. The middle loop rolls back and returns
  false at the first word it cannot set.
\<close>

function setMiddleWords ::
  "(int \<Rightarrow> bool) \<Rightarrow> Registry \<Rightarrow> int \<Rightarrow> int \<Rightarrow> u64 \<Rightarrow> int \<Rightarrow> fault + (bool \<times> Registry)" where
  "setMiddleWords cas r firstWordIndex n firstMask i =
     (if i < n then
        bindF (conditionallySetMask (cas (firstWordIndex + i + 1)) r (firstWordIndex + i + 1) ALL_ONES)
          (\<lambda>(ok, r').
             if \<not> ok then
               bindF (clearMaskRange r' firstWordIndex i firstMask ZERO) (\<lambda>r''. Inr (False, r''))
             else setMiddleWords cas r' firstWordIndex n firstMask (i + 1))
      else Inr (True, r))"
  by pat_completeness auto
termination
  by (relation "measure (\<lambda>(cas, r, f, n, m, i). nat (n - i))") auto

declare setMiddleWords.simps [simp del]

definition conditionallySetMaskRange ::
  "(int \<Rightarrow> bool) \<Rightarrow> Registry \<Rightarrow> int \<Rightarrow> int \<Rightarrow> u64 \<Rightarrow> u64 \<Rightarrow> fault + (bool \<times> Registry)" where
  "conditionallySetMaskRange cas r firstWordIndex n firstMask lastMask =
     bindF (conditionallySetMask (cas firstWordIndex) r firstWordIndex firstMask) (\<lambda>(ok, r1).
       if \<not> ok then Inr (False, r1)
       else
         bindF (setMiddleWords cas r1 firstWordIndex n firstMask 0) (\<lambda>(ok, r2).
           if \<not> ok then Inr (False, r2)
           else
             bindF (conditionallySetMask (cas (firstWordIndex + n + 1)) r2
                      (firstWordIndex + n + 1) lastMask) (\<lambda>(ok, r3).
               if \<not> ok then
                 bindF (clearMaskRange r3 firstWordIndex n firstMask ZERO) (\<lambda>r4. Inr (False, r4))
               else Inr (True, r3))))"

text \<open>
  \<^verbatim>\<open>incrementLowestFreeWordIndex\<close>: the compare-exchange on \<^verbatim>\<open>_lowestIndex\<close> replaces
  \<open>wordIndex\<close> by its successor; when the hint holds another value, that value is used.
\<close>

definition incrementLowestFreeWordIndex :: "Registry \<Rightarrow> int \<Rightarrow> int \<times> Registry" where
  "incrementLowestFreeWordIndex r wordIndex =
     (let next = wordIndex + 1 in
      if lowestIndex r = wordIndex then (next, r\<lparr>lowestIndex := next\<rparr>)
      else (lowestIndex r, r))"

function findFree_loop :: "Registry \<Rightarrow> int \<Rightarrow> fault + (int \<times> Registry)" where
  "findFree_loop r wordIndex =
     (if wordIndex = maximumWordIndex r then Inr (NOT_FOUND, r)
      else
        (case getBits r wordIndex of
           Inl e \<Rightarrow> Inl e
         | Inr v \<Rightarrow>
             if v = ALL_ONES then
               findFree_loop (snd (incrementLowestFreeWordIndex r wordIndex))
                             (fst (incrementLowestFreeWordIndex r wordIndex))
             else
               (let bitIndex = ctz (NOT v); index = getIndex wordIndex bitIndex in
                if maximumIndex r \<le> index then Inr (NOT_FOUND, r)
                else
                  (case swapBits True r wordIndex v (v OR push_bit (nat bitIndex) 1) of
                     Inl e \<Rightarrow> Inl e
                   | Inr (ok, r') \<Rightarrow>
                       if ok then Inr (index, r') else findFree_loop r' wordIndex))))"
  by pat_completeness auto
termination
  by (relation "measure (\<lambda>(r, w).
        if w = lowestIndex r then 2 * nat (int (length (bits r)) - w)
        else 2 * nat (int (length (bits r)) - lowestIndex r) + 1)")
     (auto simp: incrementLowestFreeWordIndex_def getBits_def swapBits_def Let_def
           split: if_splits)

declare findFree_loop.simps [simp del]

definition findFree :: "Registry \<Rightarrow> fault + (int \<times> Registry)" where
  "findFree r = findFree_loop r (lowestIndex r)"

definition updateLowestFreeWordIndex :: "Registry \<Rightarrow> int \<Rightarrow> Registry" where
  "updateLowestFreeWordIndex r wordIndex =
     (if lowestIndex r \<le> wordIndex then r else r\<lparr>lowestIndex := wordIndex\<rparr>)"

definition updateLowestIndex :: "Registry \<Rightarrow> int \<Rightarrow> Registry" where
  "updateLowestIndex r i = updateLowestFreeWordIndex r (getWordIndex i)"

definition free :: "Registry \<Rightarrow> int \<Rightarrow> fault + Registry" where
  "free r i = bindF (clear_bit_at r i) (\<lambda>(_, r'). Inr (updateLowestIndex r' i))"

function isEmpty_loop :: "Registry \<Rightarrow> int \<Rightarrow> fault + bool" where
  "isEmpty_loop r i =
     (if i < maximumWordIndex r then
        (case getBits r i of
           Inl e \<Rightarrow> Inl e
         | Inr v \<Rightarrow> if v \<noteq> ZERO then Inr False else isEmpty_loop r (i + 1))
      else Inr True)"
  by pat_completeness auto
termination
  by (relation "measure (\<lambda>(r, i). nat (maximumWordIndex r - i))") auto

declare isEmpty_loop.simps [simp del]

definition isEmpty :: "Registry \<Rightarrow> fault + bool" where
  "isEmpty r = (if lowestIndex r = 0 then isEmpty_loop r 0 else Inr False)"

text \<open>
  \<^verbatim>\<open>findFreeRange\<close>. The loop runs while \<^verbatim>\<open>wordIndex < _maximumIndex\<close>, as the source
  has it. A failed conditional set moves on to the next word.
\<close>

function findFreeRange_loop ::
  "(int \<Rightarrow> bool) \<Rightarrow> int \<Rightarrow> Registry \<Rightarrow> int \<Rightarrow> int \<Rightarrow> fault + (int \<times> Registry)" where
  "findFreeRange_loop cas maxIdx r cnt wordIndex =
     (if wordIndex < maxIdx then
        bindF (getBits r wordIndex) (\<lambda>v.
          if cnt \<le> BITS_PER_WORD then
            bindF (lowestZeroBitsPosition v cnt) (\<lambda>bitIndex.
              let index = getIndex wordIndex bitIndex in
              if maxIdx - cnt \<le> index then Inr (NOT_FOUND, r)
              else if bitIndex + cnt \<le> BITS_PER_WORD then
                bindF (loMask cnt) (\<lambda>lo.
                bindF (shiftLeft lo bitIndex) (\<lambda>msk.
                bindF (conditionallySetMask (cas wordIndex) r wordIndex msk) (\<lambda>(ok, r').
                  if ok then Inr (index, r')
                  else findFreeRange_loop cas maxIdx r' cnt (wordIndex + 1))))
              else
                bindF (loMask cnt) (\<lambda>lo.
                bindF (shiftLeft lo bitIndex) (\<lambda>firstMask.
                bindF (loMask (cnt - bitIndex)) (\<lambda>lastMask.
                bindF (conditionallySetMaskRange cas r wordIndex 0 firstMask lastMask) (\<lambda>(ok, r').
                  if ok then Inr (index, r')
                  else findFreeRange_loop cas maxIdx r' cnt (wordIndex + 1))))))
          else
            (let leading = clz v; index = getIndex wordIndex (BITS_PER_WORD - leading) in
             if maxIdx - cnt \<le> index then Inr (NOT_FOUND, r)
             else
               (let remaining = cnt - leading;
                    remainingWords = getWordIndex remaining;
                    remainingBits = getBitIndex remaining in
                bindF (hiMask leading) (\<lambda>leadingMask.
                bindF (loMask remainingBits) (\<lambda>trailingMask.
                bindF (conditionallySetMaskRange cas r wordIndex remainingWords
                         leadingMask trailingMask) (\<lambda>(ok, r').
                  if ok then Inr (index, r')
                  else findFreeRange_loop cas maxIdx r' cnt (wordIndex + 1)))))))
      else Inr (NOT_FOUND, r))"
  by pat_completeness auto
termination
  by (relation "measure (\<lambda>(cas, maxIdx, r, cnt, w). nat (maxIdx - w))") auto

declare findFreeRange_loop.simps [simp del]

definition findFreeRange_cas :: "(int \<Rightarrow> bool) \<Rightarrow> Registry \<Rightarrow> int \<Rightarrow> fault + (int \<times> Registry)" where
  "findFreeRange_cas cas r cnt =
     (if cnt = 0 then Inr (NOT_FOUND, r)
      else if cnt = 1 then findFree r
      else findFreeRange_loop cas (maximumIndex r) r cnt (lowestIndex r))"

definition always :: "int \<Rightarrow> bool" where
  "always w = True"

definition findFreeRange :: "Registry \<Rightarrow> int \<Rightarrow> fault + (int \<times> Registry)" where
  "findFreeRange r cnt = findFreeRange_cas always r cnt"

function count_loop :: "Registry \<Rightarrow> int \<Rightarrow> int \<Rightarrow> fault + int" where
  "count_loop r i c =
     (if i < maximumWordIndex r then
        (case getBits r i of
           Inl e \<Rightarrow> Inl e
         | Inr v \<Rightarrow> count_loop r (i + 1) (c + popcount v))
      else Inr c)"
  by pat_completeness auto
termination
  by (relation "measure (\<lambda>(r, i, c). nat (maximumWordIndex r - i))") auto

declare count_loop.simps [simp del]

definition count_bits :: "Registry \<Rightarrow> fault + int" where
  "count_bits r = count_loop r 0 0"

subsection \<open>RegistryIsSetIterator\<close>

function nextSet_loop :: "Registry \<Rightarrow> int \<Rightarrow> int \<Rightarrow> fault + int" where
  "nextSet_loop r wordIndex bitIndex =
     (if wordIndex < maximumWordIndex r then
        (case getBits r wordIndex of
           Inl e \<Rightarrow> Inl e
         | Inr v0 \<Rightarrow>
             (let v = v0 AND NOT (MASK (twoToOrder bitIndex)) in
              if v \<noteq> 0 then
                (let index = getIndex wordIndex (ctz v) in
                 if maximumIndex r \<le> index then Inr NOT_FOUND else Inr index)
              else nextSet_loop r (wordIndex + 1) 0))
      else Inr NOT_FOUND)"
  by pat_completeness auto
termination
  by (relation "measure (\<lambda>(r, w, b). nat (maximumWordIndex r - w))") auto

declare nextSet_loop.simps [simp del]

text \<open>The iterator is its \<^verbatim>\<open>_index\<close>; \<open>nextSet\<close> returns the bit found and the new index.\<close>

definition nextSet :: "Registry \<Rightarrow> int \<Rightarrow> fault + (int \<times> int)" where
  "nextSet r idx =
     bindF (nextSet_loop r (getWordIndex idx) (getBitIndex idx)) (\<lambda>i.
       if i = NOT_FOUND then Inr (NOT_FOUND, maximumIndex r) else Inr (i, i + 1))"

subsection \<open>Evaluation rules for the bit scans\<close>

lemma leading_zeros_numeral:
  "leading_zeros (numeral k) w =
     (if bit w (pred_numeral k) then 0 else Suc (leading_zeros (pred_numeral k) w))"
  by (simp add: numeral_eq_Suc)

lemma trailing_zeros_numeral:
  "trailing_zeros (numeral k) w =
     (if bit w 0 then 0 else Suc (trailing_zeros (pred_numeral k) (drop_bit 1 w)))"
  by (simp add: numeral_eq_Suc)

lemma set_bits_numeral:
  "set_bits (numeral k) w = (if bit w (pred_numeral k) then 1 else 0) + set_bits (pred_numeral k) w"
  by (simp add: numeral_eq_Suc)

lemmas scan_simps = leading_zeros_numeral trailing_zeros_numeral set_bits_numeral

lemma trailing_zeros_odd: "bit w 0 \<Longrightarrow> trailing_zeros 64 w = 0"
  by (simp add: trailing_zeros_numeral)

lemma ctz_NOT_0 [simp]: "ctz (NOT 0) = 0"
  by (simp add: ctz_def trailing_zeros_numeral)

lemma ctz_minus_1 [simp]: "ctz (- 1) = 0"
  by (simp add: ctz_def trailing_zeros_numeral)

lemma clz_0 [simp]: "clz 0 = 64"
  by (simp add: clz_def BITS_PER_WORD_def)

lemma clz_1 [simp]: "clz 1 = 63"
  by (simp add: clz_def scan_simps)

lemmas qba_consts =
  NOT_FOUND_def ZERO_def ALL_ONES_def K_def M_def BYTES_PER_WORD_def BITS_PER_WORD_ORDER_def
  BITS_PER_WORD_def PAGE_SIZE_ORDER_def PAGE_SIZE_def MAX_ADDRESS_ORDER_def
  MAX_ALLOCATION_ORDER_def MAX_ORDER_def MAX_ALLOCATION_SIZE_def MAX_PARTITION_QUANTUM_def
  MAX_QUANTUM_ALLOCATORS_def MAX_REGISTRY_BIT_COUNT_def MAX_REGISTRY_WORD_COUNT_def
  MAX_QUANTUM_ALLOCATOR_ORDERS_def SMALLEST_SIZE_ORDER_def LARGEST_SIZE_ORDER_def
  QB_STATS_SIZE_def

lemmas bit_eval =
  clz_def ctz_def popcount_def scan_simps twoToOrder_def shiftLeft_def MASK_def loMask_def
  hiMask_def roundUp_def roundUpPowerOf2_def sizeToOrder_def orderToSize_def orderMul_def
  orderDiv_def lowestZeroBit_def

lemmas registry_eval =
  lowestZeroBitsPosition.simps clearMiddleWords.simps setMiddleWords.simps findFree_loop.simps
  isEmpty_loop.simps findFreeRange_loop.simps count_loop.simps nextSet_loop.simps
  getWordIndex_def getBitIndex_def getIndex_def wordsNeeded_def Registry_default_def
  Registry_new_def getBits_def swapBits_def andBits_def orBits_def setMask_def clearMask_def
  isSet_def set_bit_at_def clear_bit_at_def conditionallySetMask_def clearMaskRange_def
  conditionallySetMaskRange_def incrementLowestFreeWordIndex_def findFree_def
  updateLowestFreeWordIndex_def updateLowestIndex_def free_def isEmpty_def
  findFreeRange_cas_def findFreeRange_def always_def count_bits_def nextSet_def

subsection \<open>Rollback of a failed multi-word claim\<close>

lemma Registry_eqI:
  fixes r r' :: Registry
  assumes "maximumIndex r' = maximumIndex r" "maximumWordIndex r' = maximumWordIndex r"
    "lowestIndex r' = lowestIndex r" "bits r' = bits r"
  shows "r' = r"
  using assms by simp

lemma clearMask_result:
  assumes "clearMask r w m = Inr (b, r')"
  shows "r' = r\<lparr>bits := (bits r)[nat w := bits r ! nat w AND NOT m]\<rparr>"
  using assms
  by (auto simp: clearMask_def andBits_def bindF_def split: if_splits)

lemma conditionallySetMask_True:
  assumes "conditionallySetMask ok r w m = Inr (True, r')"
  shows "0 \<le> w \<and> w < int (length (bits r)) \<and>
         r' = r\<lparr>bits := (bits r)[nat w := bits r ! nat w OR m]\<rparr>"
  using assms
  by (auto simp: conditionallySetMask_def swapBits_def getBits_def bindF_def split: if_splits)

lemma conditionallySetMask_False:
  assumes "conditionallySetMask ok r w m = Inr (False, r')"
  shows "r' = r"
  using assms
  by (auto simp: conditionallySetMask_def swapBits_def getBits_def bindF_def split: if_splits)

text \<open>
  \<open>claimed r0 f fm i r\<close>: \<open>r\<close> is \<open>r0\<close> with the mask or-ed into word \<open>f\<close> and the
  \<open>i\<close> words after it set to all ones.
\<close>

definition claimed :: "Registry \<Rightarrow> int \<Rightarrow> u64 \<Rightarrow> int \<Rightarrow> Registry \<Rightarrow> bool" where
  "claimed r0 f fm i r =
     (maximumIndex r = maximumIndex r0 \<and> maximumWordIndex r = maximumWordIndex r0 \<and>
      lowestIndex r = lowestIndex r0 \<and> length (bits r) = length (bits r0) \<and>
      (\<forall>k < length (bits r0).
         bits r ! k =
           (if int k = f then bits r0 ! k OR fm
            else if f < int k \<and> int k \<le> f + i then ALL_ONES
            else bits r0 ! k)))"

definition free_on_entry :: "Registry \<Rightarrow> int \<Rightarrow> int \<Rightarrow> u64 \<Rightarrow> bool" where
  "free_on_entry r f n fm =
     (bits r ! nat f AND fm = 0 \<and>
      (\<forall>k < length (bits r). f < int k \<and> int k \<le> f + n \<longrightarrow> bits r ! k = 0))"

lemma clearMiddleWords_result:
  assumes "clearMiddleWords r f n j = Inr r'" "0 \<le> f" "0 \<le> j"
  shows "maximumIndex r' = maximumIndex r \<and> maximumWordIndex r' = maximumWordIndex r \<and>
         lowestIndex r' = lowestIndex r \<and> length (bits r') = length (bits r) \<and>
         (\<forall>k < length (bits r).
            bits r' ! k = (if f + j < int k \<and> int k \<le> f + n then 0 else bits r ! k))"
  using assms
proof (induction r f n j arbitrary: r' rule: clearMiddleWords.induct)
  case (1 r f n i)
  show ?case
  proof (cases "i < n")
    case False
    with "1.prems" show ?thesis by (subst (asm) clearMiddleWords.simps) auto
  next
    case True
    with "1.prems" obtain b r1 where
      c: "clearMask r (f + i + 1) ALL_ONES = Inr (b, r1)" and
      rest: "clearMiddleWords r1 f n (i + 1) = Inr r'"
      by (subst (asm) clearMiddleWords.simps) (auto simp: bindF_def split: sum.splits)
    have r1: "r1 = r\<lparr>bits := (bits r)[nat (f + i + 1) := bits r ! nat (f + i + 1) AND NOT ALL_ONES]\<rparr>"
      using c by (rule clearMask_result)
    have ih: "maximumIndex r' = maximumIndex r1 \<and> maximumWordIndex r' = maximumWordIndex r1 \<and>
         lowestIndex r' = lowestIndex r1 \<and> length (bits r') = length (bits r1) \<and>
         (\<forall>k < length (bits r1).
            bits r' ! k = (if f + (i + 1) < int k \<and> int k \<le> f + n then 0 else bits r1 ! k))"
      using "1.IH" [OF True c refl rest] "1.prems" by simp
    show ?thesis
      using ih True "1.prems"(2,3) unfolding r1
      by (auto simp: ALL_ONES_def ZERO_def nth_list_update)
  qed
qed
lemma word_or_and_not:
  fixes a m :: u64
  assumes h: "a AND m = 0"
  shows "(a OR m) AND NOT m = a"
proof (rule bit_eqI)
  fix n
  have "bit (a AND m) n = bit (0 :: u64) n"
    by (simp add: h)
  then have "\<not> (bit a n \<and> bit m n)"
    by (simp add: bit_and_iff)
  then show "bit ((a OR m) AND NOT m) n \<longleftrightarrow> bit a n"
    by (auto simp: bit_and_iff bit_or_iff bit_not_iff dest: bit_imp_possible_bit)
qed

lemma rollback_restores:
  assumes cl: "claimed r0 f fm i r"
    and fr: "free_on_entry r0 f n fm"
    and f0: "0 \<le> f" and i_n: "i \<le> n"
    and run: "clearMaskRange r f i fm ZERO = Inr r'"
  shows "r' = r0"
proof -
  from run obtain b1 r1 r2 where
    c1: "clearMask r f fm = Inr (b1, r1)" and
    c2: "clearMiddleWords r1 f i 0 = Inr r2" and
    c3: "r' = r2"
    by (auto simp: clearMaskRange_def clearMask_def ZERO_def bindF_def split: sum.splits if_splits)
  have r1: "r1 = r\<lparr>bits := (bits r)[nat f := bits r ! nat f AND NOT fm]\<rparr>"
    using c1 by (rule clearMask_result)
  note m = clearMiddleWords_result [OF c2 f0, simplified]
  have len: "length (bits r') = length (bits r0)"
    using m cl by (simp add: c3 r1 claimed_def)
  have "bits r' ! k = bits r0 ! k" if k: "k < length (bits r0)" for k
  proof -
    have k1: "k < length (bits r1)"
      using k cl by (simp add: r1 claimed_def)
    have a: "bits r' ! k = (if f < int k \<and> int k \<le> f + i then 0 else bits r1 ! k)"
      using m k1 by (simp add: c3)
    have b: "bits r1 ! k = (if k = nat f then bits r ! k AND NOT fm else bits r ! k)"
      using k cl by (auto simp: r1 claimed_def nth_list_update)
    have c: "bits r ! k =
           (if int k = f then bits r0 ! k OR fm
            else if f < int k \<and> int k \<le> f + i then ALL_ONES
            else bits r0 ! k)"
      using k cl by (simp add: claimed_def)
    show ?thesis
    proof (cases "int k = f")
      case True
      then have kf: "k = nat f" by simp
      have z: "bits r0 ! k AND fm = 0"
        using fr by (simp add: free_on_entry_def kf)
      have "bits r' ! k = bits r1 ! k"
        using a True by simp
      also have "\<dots> = bits r ! k AND NOT fm"
        using b kf by simp
      also have "\<dots> = (bits r0 ! k OR fm) AND NOT fm"
        using c True by simp
      also have "\<dots> = bits r0 ! k"
        using z by (rule word_or_and_not)
      finally show ?thesis .
    next
      case False
      then have nk: "k \<noteq> nat f" using f0 by auto
      show ?thesis
      proof (cases "f < int k \<and> int k \<le> f + i")
        case True
        then have "bits r0 ! k = 0"
          using fr k i_n by (simp add: free_on_entry_def)
        with True show ?thesis by (simp add: a)
      next
        case False
        have "bits r' ! k = bits r1 ! k"
          using a False by auto
        also have "\<dots> = bits r ! k"
          using b nk by simp
        also have "\<dots> = bits r0 ! k"
          using c False \<open>int k \<noteq> f\<close> by auto
        finally show ?thesis .
      qed
    qed
  qed
  then have "bits r' = bits r0"
    using len by (simp add: nth_equalityI)
  moreover have "maximumIndex r' = maximumIndex r0" "maximumWordIndex r' = maximumWordIndex r0"
    "lowestIndex r' = lowestIndex r0"
    using m cl by (simp_all add: c3 r1 claimed_def)
  ultimately show ?thesis
    by (rule Registry_eqI [rotated 3])
qed

lemma claimed_step:
  assumes cl: "claimed r0 f fm i r" and i0: "0 \<le> i" and f0: "0 \<le> f"
    and w: "f + i + 1 < int (length (bits r))"
  shows "claimed r0 f fm (i + 1)
           (r\<lparr>bits := (bits r)[nat (f + i + 1) := bits r ! nat (f + i + 1) OR ALL_ONES]\<rparr>)"
proof -
  have len: "length (bits r) = length (bits r0)"
    using cl by (simp add: claimed_def)
  have nth: "bits r ! k =
           (if int k = f then bits r0 ! k OR fm
            else if f < int k \<and> int k \<le> f + i then ALL_ONES
            else bits r0 ! k)" if "k < length (bits r0)" for k
    using cl that by (simp add: claimed_def)
  have ones: "x OR ALL_ONES = ALL_ONES" for x :: u64
    by (simp add: ALL_ONES_def ZERO_def)
  have "(bits r)[nat (f + i + 1) := bits r ! nat (f + i + 1) OR ALL_ONES] ! k =
           (if int k = f then bits r0 ! k OR fm
            else if f < int k \<and> int k \<le> f + (i + 1) then ALL_ONES
            else bits r0 ! k)" if k: "k < length (bits r0)" for k
  proof (cases "k = nat (f + i + 1)")
    case True
    then have "int k = f + i + 1"
      using i0 f0 by simp
    then show ?thesis
      using k len i0 by (simp add: True ones)
  next
    case False
    then have "int k \<noteq> f + i + 1"
      by auto
    then show ?thesis
      using k len False nth [OF k] by (simp add: nth_list_update)
  qed
  then show ?thesis
    using cl by (simp add: claimed_def)
qed

lemma setMiddleWords_rollback:
  assumes "claimed r0 f fm i r" "free_on_entry r0 f n fm" "0 \<le> f" "0 \<le> i" "i \<le> n"
    and "setMiddleWords cas r f n fm i = Inr (ok, r')"
  shows "if ok then claimed r0 f fm n r' else r' = r0"
  using assms
proof (induction cas r f n fm i arbitrary: r' rule: setMiddleWords.induct)
  case (1 cas r f n fm i)
  show ?case
  proof (cases "i < n")
    case False
    with "1.prems"(6) have "ok" "r' = r"
      by (subst (asm) setMiddleWords.simps, simp)+
    with False "1.prems"(1,5) show ?thesis by simp
  next
    case True
    from "1.prems"(6) True obtain ok1 r1 where
      s: "conditionallySetMask (cas (f + i + 1)) r (f + i + 1) ALL_ONES = Inr (ok1, r1)"
      by (subst (asm) setMiddleWords.simps) (auto simp: bindF_def split: sum.splits)
    show ?thesis
    proof (cases ok1)
      case False
      have r1: "r1 = r"
        using s False by (auto dest: conditionallySetMask_False)
      from "1.prems"(6) True s False have
        "clearMaskRange r f i fm ZERO = Inr r'" and "\<not> ok"
        by (subst (asm) setMiddleWords.simps, auto simp: r1 bindF_def split: sum.splits)+
      then show ?thesis
        using rollback_restores [OF "1.prems"(1,2,3) _ \<open>clearMaskRange r f i fm ZERO = Inr r'\<close>]
          "1.prems"(5) by simp
    next
      case ok1: True
      from s ok1 have
        inr: "f + i + 1 < int (length (bits r))" and
        r1: "r1 = r\<lparr>bits := (bits r)[nat (f + i + 1) := bits r ! nat (f + i + 1) OR ALL_ONES]\<rparr>"
        by (auto dest: conditionallySetMask_True)
      have cl1: "claimed r0 f fm (i + 1) r1"
        unfolding r1 using "1.prems"(1,4,3) inr by (rule claimed_step)
      from "1.prems"(6) True s ok1 have rest: "setMiddleWords cas r1 f n fm (i + 1) = Inr (ok, r')"
        by (subst (asm) setMiddleWords.simps) (auto simp: bindF_def)
      show ?thesis
        using "1.IH" [OF True s refl _ cl1 "1.prems"(2,3) _ _ rest] ok1 True "1.prems"(4)
        by simp
    qed
  qed
qed

subsection \<open>Claims about the Registry\<close>

text \<open>\<open>fails_on w\<close>: every compare-exchange succeeds but the one on word \<open>w\<close>.\<close>

definition fails_on :: "int \<Rightarrow> int \<Rightarrow> bool" where
  "fails_on w i = (i \<noteq> w)"

text \<open>A registry of 192 bits in which bit 64 (bit 0 of word 1) is in use.\<close>

definition busy_registry :: Registry where
  "busy_registry = (Registry_new 192)\<lparr>bits := (bits (Registry_new 192))[1 := 1]\<rparr>"

text \<open>
  Claim C6 (when \<^verbatim>\<open>conditionallySetMaskRange\<close> returns false, the bits the call touched
  are what they were on entry) fails on the code. Bit 64 is in use on entry. The call
  or-s its masks into word 0 and word 1 without looking at what the words hold, the
  compare-exchange on the last word fails (a \<^verbatim>\<open>compare_exchange_weak\<close> may fail with no
  other thread at work), and the rollback clears word 1 entirely. Bit 64, which the call
  touched but did not set, is lost; the function's comment says that it "backs out the
  sets it did prior".
\<close>

theorem conditionallySetMaskRange_rollback_clears_busy_bits:
  "conditionallySetMaskRange (fails_on 2) busy_registry 0 1 ALL_ONES 1 = Inr (False, Registry_new 192) \<and>
     bits busy_registry ! 1 = 1 \<and> bits (Registry_new 192) ! 1 = 0"
  by (simp add: busy_registry_def fails_on_def qba_consts bit_eval registry_eval)
     (simp add: list_eq_iff_nth_eq nth_list_update)

text \<open>
  The call above is the one that \<^verbatim>\<open>findFreeRange(129)\<close> issues on that registry: for
  a count above 64 the scan looks at the first word only. When every exchange succeeds,
  the range is handed out over the bit in use; when the exchange on word 2 fails, the
  request fails and the registry is left empty.
\<close>

lemma findFreeRange_claims_over_busy_bit:
  "findFreeRange busy_registry 129 =
     Inr (0, (Registry_new 192)
               \<lparr>bits := (bits (Registry_new 192))[0 := ALL_ONES, 1 := ALL_ONES, 2 := 1]\<rparr>)"
  by code_simp

lemma findFreeRange_loses_busy_bit:
  "findFreeRange_cas (fails_on 2) busy_registry 129 = Inr (NOT_FOUND, Registry_new 192)"
  by code_simp

text \<open>
  Where the bits of the first mask and the \<open>n\<close> middle words were all zero on entry, a
  call that returns false leaves the registry exactly as it was.
\<close>

lemma conditionallySetMaskRange_restores_free_range:
  assumes run: "conditionallySetMaskRange cas r f n fm lm = Inr (False, r')"
    and fr: "free_on_entry r f n fm"
  shows "r' = r"
proof -
  from run obtain ok1 r1 where
    s1: "conditionallySetMask (cas f) r f fm = Inr (ok1, r1)"
    by (auto simp: conditionallySetMaskRange_def bindF_def split: sum.splits)
  show ?thesis
  proof (cases ok1)
    case False
    with s1 have "r1 = r"
      by (auto dest: conditionallySetMask_False)
    moreover from run s1 False have "r' = r1"
      by (simp add: conditionallySetMaskRange_def)
    ultimately show ?thesis by simp
  next
    case True
    with s1 have f0: "0 \<le> f" and fl: "f < int (length (bits r))"
      and r1: "r1 = r\<lparr>bits := (bits r)[nat f := bits r ! nat f OR fm]\<rparr>"
      by (auto dest: conditionallySetMask_True)
    have cl0: "claimed r f fm 0 r1"
      using f0 fl by (auto simp: claimed_def r1 nth_list_update)
    from run s1 True obtain ok2 r2 where
      s2: "setMiddleWords cas r1 f n fm 0 = Inr (ok2, r2)"
      by (auto simp: conditionallySetMaskRange_def bindF_def split: sum.splits)
    show ?thesis
    proof (cases "0 \<le> n")
      case n0: True
      note mid = setMiddleWords_rollback [OF cl0 fr f0 _ n0 s2, simplified]
      show ?thesis
      proof (cases ok2)
        case False
        with mid have "r2 = r" by simp
        moreover from run s1 True s2 False have "r' = r2"
          by (simp add: conditionallySetMaskRange_def)
        ultimately show ?thesis by simp
      next
        case ok2: True
        with mid have cl: "claimed r f fm n r2" by simp
        from run s1 True s2 ok2 obtain ok3 r3 where
          s3: "conditionallySetMask (cas (f + n + 1)) r2 (f + n + 1) lm = Inr (ok3, r3)"
          by (auto simp: conditionallySetMaskRange_def bindF_def split: sum.splits)
        from run s1 True s2 ok2 s3 have nok3: "\<not> ok3"
          by (auto simp: conditionallySetMaskRange_def bindF_def split: sum.splits if_splits)
        with s3 have r3: "r3 = r2"
          by (auto dest: conditionallySetMask_False)
        from run s1 True s2 ok2 s3 nok3 have "clearMaskRange r2 f n fm ZERO = Inr r'"
          by (auto simp: conditionallySetMaskRange_def r3 bindF_def split: sum.splits)
        with cl fr f0 show ?thesis
          by (auto intro: rollback_restores)
      qed
    next
      case False
      then have nlt: "\<not> 0 < n" by simp
      from s2 nlt have ok2: "ok2" and r2: "r2 = r1"
        by (subst (asm) setMiddleWords.simps, simp)+
      have cl: "claimed r f fm n r1"
        using cl0 False by (auto simp: claimed_def)
      from run s1 True s2 ok2 obtain ok3 r3 where
        s3: "conditionallySetMask (cas (f + n + 1)) r1 (f + n + 1) lm = Inr (ok3, r3)"
        by (auto simp: conditionallySetMaskRange_def r2 bindF_def split: sum.splits)
      from run s1 True s2 ok2 s3 have nok3: "\<not> ok3"
        by (auto simp: conditionallySetMaskRange_def r2 bindF_def split: sum.splits if_splits)
      with s3 have r3: "r3 = r1"
        by (auto dest: conditionallySetMask_False)
      from run s1 True s2 ok2 s3 nok3 have "clearMaskRange r1 f n fm ZERO = Inr r'"
        by (auto simp: conditionallySetMaskRange_def r2 r3 bindF_def split: sum.splits)
      with cl fr f0 show ?thesis
        by (auto intro: rollback_restores)
    qed
  qed
qed

lemma conditionallySetMaskRange_restores_free_range_example:
  "free_on_entry (Registry_new 192) 0 1 ALL_ONES \<and>
   conditionallySetMaskRange (fails_on 2) (Registry_new 192) 0 1 ALL_ONES 1 = Inr (False, Registry_new 192)"
proof -
  have fr: "free_on_entry (Registry_new 192) 0 1 ALL_ONES"
    by (simp add: free_on_entry_def qba_consts bit_eval registry_eval)
  have "\<exists>r'. conditionallySetMaskRange (fails_on 2) (Registry_new 192) 0 1 ALL_ONES 1 = Inr (False, r')"
    by (simp add: fails_on_def qba_consts bit_eval registry_eval)
  then obtain r' where
    run: "conditionallySetMaskRange (fails_on 2) (Registry_new 192) 0 1 ALL_ONES 1 = Inr (False, r')"
    by blast
  from conditionallySetMaskRange_restores_free_range [OF run fr] run fr show ?thesis
    by simp
qed

text \<open>
  A registry of 16384 bits, all in use, whose hint has been advanced past the last word
  by a failed \<^verbatim>\<open>findFree\<close>: the state of a full partition of the smallest quantum.
\<close>

definition full_registry :: Registry where
  "full_registry =
     \<lparr>maximumIndex = 16384, maximumWordIndex = 256, lowestIndex = 256,
      bits = replicate 256 ALL_ONES\<rparr>"

text \<open>
  Claim C8 fails on the code: the loop of \<^verbatim>\<open>findFreeRange\<close> is bounded by
  \<^verbatim>\<open>_maximumIndex\<close>, the number of bits, so it reads word 256 of the 256-word array.
\<close>

theorem findFreeRange_reads_past_last_word:
  "findFreeRange full_registry 2 = Inl (WordIndexOutOfRange 256)"
  by (simp add: findFreeRange_def findFreeRange_cas_def full_registry_def getBits_def
      findFreeRange_loop.simps)

lemma findFreeRange_reads_word_at_hint:
  assumes "1 < cnt" "lowestIndex r < maximumIndex r" "lowestIndex r = int (length (bits r))"
  shows "findFreeRange_cas cas r cnt = Inl (WordIndexOutOfRange (lowestIndex r))"
  using assms by (simp add: findFreeRange_cas_def getBits_def findFreeRange_loop.simps)

subsection \<open>System: the operating system's virtual memory calls\<close>

text \<open>
  The operating system is outside the program. Its calls are logged in \<open>calls\<close>, and
  the addresses that successive anonymous \<^verbatim>\<open>mmap\<close> reservations return are given in
  advance in \<open>mmap_results\<close> (\<^verbatim>\<open>MAP_FAILED\<close> once the list is used up). The contents of
  memory are not modelled: clearing and copying are logged only.
\<close>

datatype syscall =
    Mmap address u64
  | Munmap address u64
  | Commit address u64
  | Clear address u64 bool
  | Copy address address u64

record System =
  mmap_results :: "address list"
  calls :: "syscall list"

definition MAP_FAILED :: address where
  "MAP_FAILED = ALL_ONES"

definition reserve :: "System \<Rightarrow> u64 \<Rightarrow> address \<Rightarrow> address \<times> System" where
  "reserve sys sz location =
     (let a = (case mmap_results sys of [] \<Rightarrow> MAP_FAILED | x # xs \<Rightarrow> x);
          sys' = sys\<lparr>mmap_results := tl (mmap_results sys),
                     calls := calls sys @ [Mmap location sz]\<rparr>
      in (if a = MAP_FAILED then 0 else a, sys'))"

definition release :: "System \<Rightarrow> address \<Rightarrow> u64 \<Rightarrow> System" where
  "release sys a sz = sys\<lparr>calls := calls sys @ [Munmap a sz]\<rparr>"

definition commit :: "System \<Rightarrow> address \<Rightarrow> u64 \<Rightarrow> System" where
  "commit sys a sz = sys\<lparr>calls := calls sys @ [Commit a sz]\<rparr>"

definition System_clear :: "System \<Rightarrow> address \<Rightarrow> u64 \<Rightarrow> bool \<Rightarrow> System" where
  "System_clear sys a sz sharing = sys\<lparr>calls := calls sys @ [Clear a sz sharing]\<rparr>"

definition System_copy :: "System \<Rightarrow> address \<Rightarrow> address \<Rightarrow> u64 \<Rightarrow> System" where
  "System_copy sys src dst sz = sys\<lparr>calls := calls sys @ [Copy src dst sz]\<rparr>"

definition reserveAligned :: "System \<Rightarrow> u64 \<Rightarrow> u64 \<Rightarrow> address \<times> System" where
  "reserveAligned sys sz alignment =
     (let reserveSize = sz + alignment - PAGE_SIZE;
          (a, sys1) = reserve sys reserveSize 0
      in if a = MAP_FAILED then (0, sys1)
         else
           (let b = roundUp a alignment;
                prefixSize = b - a;
                postfixSize = reserveSize - sz - prefixSize;
                sys2 = (if prefixSize \<noteq> 0 then release sys1 a prefixSize else sys1);
                sys3 = (if postfixSize \<noteq> 0 then release sys2 (b + sz) postfixSize else sys2)
            in (b, sys3)))"

subsection \<open>Space, Arena and the allocators' data\<close>

record Space =
  base :: address
  limit :: address

definition Space_new :: "address \<Rightarrow> u64 \<Rightarrow> Space" where
  "Space_new b sz = \<lparr>base = b, limit = b + sz\<rparr>"

definition Space_size :: "'a Space_scheme \<Rightarrow> u64" where
  "Space_size s = limit s - base s"

definition inSpace :: "'a Space_scheme \<Rightarrow> address \<Rightarrow> bool" where
  "inSpace s a = (base s \<le> a \<and> a < limit s)"

record Arena = Space +
  "next" :: address

definition Arena_sizing :: Arena where
  "Arena_sizing = \<lparr>base = 0, limit = 0 + ALL_ONES, next = 0\<rparr>"

definition Arena_new :: "address \<Rightarrow> u64 \<Rightarrow> Arena" where
  "Arena_new b sz = \<lparr>base = b, limit = b + sz, next = b\<rparr>"

definition Arena_allocate :: "Arena \<Rightarrow> u64 \<Rightarrow> address \<times> Arena" where
  "Arena_allocate a sz =
     (let alignedSize = roundUp sz (word_of_int BYTES_PER_WORD);
          n = next a + alignedSize
      in if limit a < n then (0, a) else (next a, a\<lparr>next := n\<rparr>))"

definition Arena_allocated :: "Arena \<Rightarrow> u64" where
  "Arena_allocated a = next a - base a"

definition NullAllocatorID :: int where "NullAllocatorID = 0"
definition PartitionID :: int where "PartitionID = 1"
definition QuantumAllocatorID :: int where "QuantumAllocatorID = 2"
definition SlabAllocatorID :: int where "SlabAllocatorID = 3"

record Allocator = Space +
  ID :: int
  smallestSizeOrder :: int
  largestSizeOrder :: int

text \<open>
  A pointer to an allocator, as the roster stores it: the null allocator, partition
  \<open>i\<close> of quantum allocator \<open>q\<close>, quantum allocator \<open>q\<close>, or the slab allocator.
\<close>

datatype Allocator_ptr =
    Null_ptr
  | NullAllocator_ptr
  | Partition_ptr nat int
  | QuantumAllocator_ptr nat
  | SlabAllocator_ptr

record Partition = Allocator +
  sharing :: bool
  quantumAllocator :: "nat option"
  quantumSizeOrder :: int
  registry :: Registry
  sideDataSize :: int
  sidedata :: address

record QuantumAllocator = Allocator +
  qa_sharing :: bool
  partitionSizeOrder :: int
  partitionCount :: int
  partitionSize :: u64
  smallestSize :: u64
  largestSize :: u64
  partitions :: "Partition list"
  partitionRegistry :: Registry
  orderRegistry :: "Registry list"
  qa_sideDataSize :: int
  sideData :: address

record SlabAllocator = Allocator +
  secure :: bool
  maxCount :: int
  slabs :: "Space list"
  slab_sideDataSize :: int
  slab_sideData :: address
  slab_registry :: Registry

record Director = Space +
  d_sharing :: bool
  d_secure :: bool
  roster :: "Allocator_ptr list"
  quantumAllocators :: "QuantumAllocator list"
  slabAllocator :: SlabAllocator
  reference :: address
  linkName :: string
  system :: System

subsection \<open>Partition\<close>

text \<open>A partition slot that was never constructed: committed memory, all zero.\<close>

definition Partition_zero :: Partition where
  "Partition_zero =
     \<lparr>base = 0, limit = 0, ID = 0, smallestSizeOrder = 0, largestSizeOrder = 0,
      sharing = False, quantumAllocator = None, quantumSizeOrder = 0,
      registry = Registry_default, sideDataSize = 0, sidedata = 0\<rparr>"

definition Partition_new ::
  "bool \<Rightarrow> nat \<Rightarrow> address \<Rightarrow> u64 \<Rightarrow> u64 \<Rightarrow> int \<Rightarrow> address \<Rightarrow> Partition" where
  "Partition_new sh q b partSize quantSize sdSize sd =
     \<lparr>base = b, limit = b + partSize, ID = PartitionID,
      smallestSizeOrder = sizeToOrder quantSize, largestSizeOrder = sizeToOrder quantSize,
      sharing = sh, quantumAllocator = Some q, quantumSizeOrder = sizeToOrder quantSize,
      registry = Registry_new (orderDiv partSize (sizeToOrder quantSize)),
      sideDataSize = sdSize, sidedata = sd\<rparr>"

definition Address_getIndex :: "address \<Rightarrow> address \<Rightarrow> int \<Rightarrow> int" where
  "Address_getIndex a b order = orderDiv (a - b) order"

definition quantumIndex :: "Partition \<Rightarrow> address \<Rightarrow> int" where
  "quantumIndex p a = Address_getIndex a (base p) (quantumSizeOrder p)"

definition quantumSize :: "Partition \<Rightarrow> u64" where
  "quantumSize p = orderToSize (quantumSizeOrder p)"

definition Partition_isEmpty :: "Partition \<Rightarrow> fault + bool" where
  "Partition_isEmpty p = isEmpty (registry p)"

definition Partition_allocate :: "Partition \<Rightarrow> u64 \<Rightarrow> fault + (address \<times> Partition)" where
  "Partition_allocate p sz =
     bindF (findFree (registry p)) (\<lambda>(index, r').
       if index = NOT_FOUND then Inr (0, p\<lparr>registry := r'\<rparr>)
       else Inr (base p + orderMul (word_of_int index) (quantumSizeOrder p),
                 p\<lparr>registry := r'\<rparr>))"

definition Partition_deallocate :: "Partition \<Rightarrow> address \<Rightarrow> fault + Partition" where
  "Partition_deallocate p a =
     bindF (free (registry p) (quantumIndex p a)) (\<lambda>r'. Inr (p\<lparr>registry := r'\<rparr>))"

text \<open>
  The caller's address buffer is a list; \<open>put\<close> writes one entry. Writing past the end of
  the buffer is a fault.
\<close>

definition put :: "address list \<Rightarrow> int \<Rightarrow> address \<Rightarrow> fault + address list" where
  "put buf i a =
     (if 0 \<le> i \<and> i < int (length buf) then Inr (buf[nat i := a])
      else Inl (BufferIndexOutOfRange i))"

function synthesize ::
  "Partition \<Rightarrow> int \<Rightarrow> int \<Rightarrow> address list \<Rightarrow> int \<Rightarrow> int \<Rightarrow> fault + address list" where
  "synthesize p index cnt buf off i =
     (if i < cnt then
        (case put buf (off + i)
                (base p + orderMul (word_of_int (index + i)) (quantumSizeOrder p)) of
           Inl e \<Rightarrow> Inl e
         | Inr buf' \<Rightarrow> synthesize p index cnt buf' off (i + 1))
      else Inr buf)"
  by pat_completeness auto
termination
  by (relation "measure (\<lambda>(p, index, cnt, buf, off, i). nat (cnt - i))") auto

declare synthesize.simps [simp del]

text \<open>
  \<^verbatim>\<open>allocateBulkContiguous(count, addresses)\<close>; \<open>off\<close> is the offset of \<^verbatim>\<open>addresses\<close> in
  the caller's buffer.
\<close>

definition allocateBulkContiguous ::
  "Partition \<Rightarrow> int \<Rightarrow> address list \<Rightarrow> int \<Rightarrow> fault + (int \<times> address list \<times> Partition)" where
  "allocateBulkContiguous p cnt buf off =
     bindF (findFreeRange (registry p) cnt) (\<lambda>(index, r').
       if index = NOT_FOUND then Inr (0, buf, p\<lparr>registry := r'\<rparr>)
       else bindF (synthesize p index cnt buf off 0) (\<lambda>buf'.
              Inr (cnt, buf', p\<lparr>registry := r'\<rparr>)))"

definition Partition_allocationSize :: "Partition \<Rightarrow> address \<Rightarrow> u64" where
  "Partition_allocationSize p a = quantumSize p"

definition Partition_allocationBase :: "Partition \<Rightarrow> address \<Rightarrow> address" where
  "Partition_allocationBase p a = a AND NOT (MASK (quantumSize p))"

definition Partition_allocationSideData :: "Partition \<Rightarrow> address \<Rightarrow> address" where
  "Partition_allocationSideData p a =
     sidedata p + word_of_int (quantumIndex p a * sideDataSize p)"

definition Partition_clear :: "Partition \<Rightarrow> System \<Rightarrow> address \<Rightarrow> System" where
  "Partition_clear p sys a =
     System_clear sys (Partition_allocationBase p a) (quantumSize p) (sharing p)"

text \<open>The statistics buffers are arrays of \<^verbatim>\<open>QB_STATS_SIZE\<close> words.\<close>

definition bump :: "u64 list \<Rightarrow> int \<Rightarrow> u64 \<Rightarrow> fault + u64 list" where
  "bump xs i v =
     (if 0 \<le> i \<and> i < int (length xs) then Inr (xs[nat i := xs ! nat i + v])
      else Inl (StatsIndexOutOfRange i))"

definition Partition_stats ::
  "Partition \<Rightarrow> u64 list \<Rightarrow> u64 list \<Rightarrow> fault + (u64 list \<times> u64 list)" where
  "Partition_stats p counts sizes =
     bindF (count_bits (registry p)) (\<lambda>c.
     bindF (bump counts (quantumSizeOrder p) (word_of_int c)) (\<lambda>counts'.
     bindF (bump sizes (quantumSizeOrder p) (orderMul (word_of_int c) (quantumSizeOrder p)))
       (\<lambda>sizes'. Inr (counts', sizes'))))"

subsection \<open>AllocateBulkIterator\<close>

lemma lowestZeroBit_or_measure:
  fixes v :: u64
  assumes "v \<noteq> ALL_ONES"
  shows "2 ^ 64 - unat (v OR lowestZeroBit v) < 2 ^ 64 - unat v"
proof -
  let ?b = "lowestZeroBit v"
  have n0: "NOT v \<noteq> 0"
    using assms unfolding ALL_ONES_def ZERO_def by (metis bit.compl_zero word_not_not)
  have b_def: "?b = NOT v AND - NOT v"
    by (simp add: lowestZeroBit_def Let_def)
  have "v OR ?b \<noteq> v"
  proof
    assume "v OR ?b = v"
    then have "?b AND NOT v = 0"
      by (rule word_or_self_sub)
    moreover have "?b AND NOT v = ?b"
      unfolding b_def by (simp add: and.assoc and.commute and.left_commute)
    ultimately have "?b = 0" by simp
    with lowest_bit_nonzero [OF n0] show False
      by (simp add: b_def)
  qed
  moreover have "v \<le> v OR ?b"
    by (rule le_word_or2)
  ultimately have "v < v OR ?b"
    by simp
  then have "unat v < unat (v OR ?b)"
    by (simp add: word_less_nat_alt)
  moreover have "unat (v OR ?b) < 2 ^ 64"
    using unsigned_less [of "v OR ?b", where ?'a = nat] by simp
  ultimately show ?thesis
    by arith
qed

text \<open>
  The scan of one word of \<^verbatim>\<open>iterate\<close>: \<open>v\<close> is the snapshot of the word, whose bits
  were all set beforehand. The result says whether the iteration goes on to the next word.
\<close>

function bulk_word ::
  "int \<Rightarrow> Registry \<Rightarrow> address \<Rightarrow> int \<Rightarrow> int \<Rightarrow> address list \<Rightarrow> int \<Rightarrow> int \<Rightarrow> int \<Rightarrow> u64
     \<Rightarrow> fault + (bool \<times> int \<times> address list \<times> Registry)" where
  "bulk_word maxIdx r b order cnt buf off allocated wordIndex v =
     (if v \<noteq> ALL_ONES then
        (let lowestBit = lowestZeroBit v;
             bitIndex = BITS_PER_WORD - 1 - clz lowestBit;
             index = getIndex wordIndex bitIndex in
         if maxIdx \<le> index then
           bindF (clearMask r wordIndex (NOT v)) (\<lambda>(_, r'). Inr (True, allocated, buf, r'))
         else if allocated < cnt then
           (case put buf (off + allocated) (b + orderMul (word_of_int index) order) of
              Inl e \<Rightarrow> Inl e
            | Inr buf' \<Rightarrow>
                bulk_word maxIdx r b order cnt buf' off (allocated + 1) wordIndex
                  (v OR lowestBit))
         else
           bindF (clearMask r wordIndex (NOT v)) (\<lambda>(_, r'). Inr (False, allocated, buf, r')))
      else Inr (True, allocated, buf, r))"
  by pat_completeness auto
termination
  by (relation "measure (\<lambda>(maxIdx, r, b, order, cnt, buf, off, allocated, wordIndex, v).
        2 ^ 64 - unat v)") (use lowestZeroBit_or_measure in auto)

declare bulk_word.simps [simp del]

function iterate_loop ::
  "int \<Rightarrow> int \<Rightarrow> Registry \<Rightarrow> address \<Rightarrow> int \<Rightarrow> int \<Rightarrow> address list \<Rightarrow> int \<Rightarrow> int \<Rightarrow> int
     \<Rightarrow> fault + (int \<times> address list \<times> Registry)" where
  "iterate_loop maxIdx maxWord r b order cnt buf off allocated wordIndex =
     (if wordIndex < maxWord then
        (case getBits r wordIndex of
           Inl e \<Rightarrow> Inl e
         | Inr v \<Rightarrow>
             (case (if v \<noteq> ALL_ONES then swapBits True r wordIndex v (v OR ALL_ONES)
                    else Inr (True, r)) of
                Inl e \<Rightarrow> Inl e
              | Inr (_, r1) \<Rightarrow>
                  (case bulk_word maxIdx r1 b order cnt buf off allocated wordIndex v of
                     Inl e \<Rightarrow> Inl e
                   | Inr (continue, allocated', buf', r2) \<Rightarrow>
                       if continue then
                         iterate_loop maxIdx maxWord r2 b order cnt buf' off allocated'
                           (wordIndex + 1)
                       else Inr (allocated', buf', r2))))
      else Inr (allocated, buf, r))"
  by pat_completeness auto
termination
  by (relation "measure (\<lambda>(maxIdx, maxWord, r, b, order, cnt, buf, off, allocated, w).
        nat (maxWord - w))") auto

declare iterate_loop.simps [simp del]

definition Partition_allocateBulk ::
  "Partition \<Rightarrow> int \<Rightarrow> address list \<Rightarrow> int \<Rightarrow> fault + (int \<times> address list \<times> Partition)" where
  "Partition_allocateBulk p cnt buf off =
     bindF (iterate_loop (maximumIndex (registry p)) (maximumWordIndex (registry p)) (registry p)
              (base p) (quantumSizeOrder p) cnt buf off 0 (lowestIndex (registry p)))
       (\<lambda>(allocated, buf', r'). Inr (allocated, buf', p\<lparr>registry := r'\<rparr>))"

subsection \<open>AllocatorRoster\<close>

definition getAllocator :: "Allocator_ptr list \<Rightarrow> int \<Rightarrow> fault + Allocator_ptr" where
  "getAllocator ros order =
     (if 0 \<le> order \<and> order < int (length ros) then Inr (ros ! nat order)
      else Inl (OrderOutOfRange order))"

definition setAllocator :: "Allocator_ptr list \<Rightarrow> Allocator_ptr \<Rightarrow> int \<Rightarrow> fault + Allocator_ptr list" where
  "setAllocator ros a order =
     (if 0 \<le> order \<and> order < int (length ros) then Inr (ros[nat order := a])
      else Inl (OrderOutOfRange order))"

function setAllocators ::
  "Allocator_ptr list \<Rightarrow> Allocator_ptr \<Rightarrow> int \<Rightarrow> int \<Rightarrow> fault + Allocator_ptr list" where
  "setAllocators ros a loOrder hiOrder =
     (if loOrder < hiOrder then
        (case setAllocator ros a loOrder of
           Inl e \<Rightarrow> Inl e
         | Inr ros' \<Rightarrow> setAllocators ros' a (loOrder + 1) hiOrder)
      else Inr ros)"
  by pat_completeness auto
termination
  by (relation "measure (\<lambda>(ros, a, lo, hi). nat (hi - lo))") auto

declare setAllocators.simps [simp del]

subsection \<open>QuantumAllocator\<close>

text \<open>
  The sizes of the administrative structures depend on the compiler; they are parameters.
\<close>

record Layout =
  sizeof_AllocatorRoster :: u64
  sizeof_Partition :: u64
  sizeof_QuantumAllocator :: u64
  sizeof_Slab :: u64
  sizeof_SlabAllocator :: u64
  sizeof_Director :: u64
  sizeof_pointer :: u64

text \<open>
  A quantum allocator works on its own fields, on the roster of the director that owns it
  and on the operating system, so its operations take the director \<open>d\<close> and the position
  \<open>q\<close> of the allocator in \<^verbatim>\<open>_quantumAllocators\<close>. A \<^verbatim>\<open>Partition *\<close> into
  \<^verbatim>\<open>_partitions\<close> is the partition's index, \<open>None\<close> for \<^verbatim>\<open>nullptr\<close>.
\<close>

definition qa_at :: "Director \<Rightarrow> nat \<Rightarrow> QuantumAllocator" where
  "qa_at d q = quantumAllocators d ! q"

definition qa_update :: "Director \<Rightarrow> nat \<Rightarrow> QuantumAllocator \<Rightarrow> Director" where
  "qa_update d q a = d\<lparr>quantumAllocators := (quantumAllocators d)[q := a]\<rparr>"

definition getPartition :: "QuantumAllocator \<Rightarrow> int \<Rightarrow> fault + Partition" where
  "getPartition a partitionIndex =
     (if 0 \<le> partitionIndex \<and> partitionIndex < int (length (partitions a))
      then Inr (partitions a ! nat partitionIndex)
      else Inl (PartitionIndexOutOfRange partitionIndex))"

definition putPartition :: "QuantumAllocator \<Rightarrow> int \<Rightarrow> Partition \<Rightarrow> fault + QuantumAllocator" where
  "putPartition a partitionIndex p =
     (if 0 \<le> partitionIndex \<and> partitionIndex < int (length (partitions a))
      then Inr (a\<lparr>partitions := (partitions a)[nat partitionIndex := p]\<rparr>)
      else Inl (PartitionIndexOutOfRange partitionIndex))"

definition getOrderRegistry :: "QuantumAllocator \<Rightarrow> int \<Rightarrow> fault + Registry" where
  "getOrderRegistry a orderIndex =
     (if 0 \<le> orderIndex \<and> orderIndex < int (length (orderRegistry a))
      then Inr (orderRegistry a ! nat orderIndex)
      else Inl (OrderOutOfRange orderIndex))"

definition putOrderRegistry :: "QuantumAllocator \<Rightarrow> int \<Rightarrow> Registry \<Rightarrow> QuantumAllocator" where
  "putOrderRegistry a orderIndex r = a\<lparr>orderRegistry := (orderRegistry a)[nat orderIndex := r]\<rparr>"

definition newPartition :: "Director \<Rightarrow> nat \<Rightarrow> int \<Rightarrow> u64 \<Rightarrow> fault + Director" where
  "newPartition d q partitionIndex sz =
     (let a = qa_at d q;
          address = base a + orderMul (word_of_int partitionIndex) (partitionSizeOrder a)
      in bindF (putPartition a partitionIndex
                  (Partition_new (qa_sharing a) q address (partitionSize a) sz (qa_sideDataSize a)
                     (sideData a +
                      word_of_int (qa_sideDataSize a * partitionIndex * MAX_PARTITION_QUANTUM))))
           (\<lambda>a'. Inr (qa_update d q a')))"

definition getOrderIndex :: "QuantumAllocator \<Rightarrow> u64 \<Rightarrow> int" where
  "getOrderIndex a sz = sizeToOrder sz - smallestSizeOrder a"

definition onlinePartition :: "Director \<Rightarrow> nat \<Rightarrow> int \<Rightarrow> int \<Rightarrow> fault + Director" where
  "onlinePartition d q partitionIndex orderIndex =
     (let a = qa_at d q in
      bindF (getOrderRegistry a orderIndex) (\<lambda>r.
      bindF (set_bit_at r partitionIndex) (\<lambda>(_, r').
        Inr (qa_update d q (putOrderRegistry a orderIndex r')))))"

definition offlinePartition :: "Director \<Rightarrow> nat \<Rightarrow> int \<Rightarrow> int \<Rightarrow> fault + (bool \<times> Director)" where
  "offlinePartition d q partitionIndex orderIndex =
     (let a = qa_at d q in
      bindF (getOrderRegistry a orderIndex) (\<lambda>r.
      bindF (clear_bit_at r partitionIndex) (\<lambda>(cleared, r').
      bindF (setAllocator (roster d) (QuantumAllocator_ptr q) (smallestSizeOrder a + orderIndex))
        (\<lambda>ros. Inr (cleared,
                      (qa_update d q (putOrderRegistry a orderIndex r'))\<lparr>roster := ros\<rparr>)))))"

definition addToOrder :: "Director \<Rightarrow> nat \<Rightarrow> int \<Rightarrow> int \<Rightarrow> fault + Director" where
  "addToOrder d q orderIndex partitionIndex =
     bindF (onlinePartition d q partitionIndex orderIndex) (\<lambda>d1.
     bindF (setAllocator (roster d1) (Partition_ptr q partitionIndex)
              (smallestSizeOrder (qa_at d1 q) + orderIndex))
       (\<lambda>ros. Inr (d1\<lparr>roster := ros\<rparr>)))"

definition partitionBase :: "QuantumAllocator \<Rightarrow> int \<Rightarrow> address" where
  "partitionBase a partitionIndex =
     base a + orderMul (word_of_int partitionIndex) (partitionSizeOrder a)"

definition allocatePartition :: "Director \<Rightarrow> nat \<Rightarrow> fault + (int \<times> Director)" where
  "allocatePartition d q =
     (let a = qa_at d q in
      bindF (findFree (partitionRegistry a)) (\<lambda>(partitionIndex, r').
        let d1 = qa_update d q (a\<lparr>partitionRegistry := r'\<rparr>) in
        if partitionIndex \<noteq> NOT_FOUND \<and> \<not> qa_sharing a then
          Inr (partitionIndex,
               d1\<lparr>system := commit (system d1) (partitionBase a partitionIndex) (partitionSize a)\<rparr>)
        else Inr (partitionIndex, d1)))"

definition newOrderPartition :: "Director \<Rightarrow> nat \<Rightarrow> int \<Rightarrow> fault + (int option \<times> Director)" where
  "newOrderPartition d q orderIndex =
     bindF (allocatePartition d q) (\<lambda>(partitionIndex, d1).
       if partitionIndex = NOT_FOUND then Inr (None, d1)
       else
         (let sz = orderToSize (orderIndex + smallestSizeOrder (qa_at d1 q)) in
          bindF (newPartition d1 q partitionIndex sz) (\<lambda>d2.
          bindF (addToOrder d2 q orderIndex partitionIndex) (\<lambda>d3.
            Inr (Some partitionIndex, d3)))))"

text \<open>
  \<^verbatim>\<open>freeUpPartition\<close>: the scan from the last partition down. The order registry that
  \<^verbatim>\<open>offlinePartition\<close> and \<^verbatim>\<open>onlinePartition\<close> work on is the one of the order asked for.
\<close>

function freeUpPartition_loop ::
  "Director \<Rightarrow> nat \<Rightarrow> int \<Rightarrow> int \<Rightarrow> fault + (int option \<times> Director)" where
  "freeUpPartition_loop d q orderIndex partitionIndex =
     (if 0 \<le> partitionIndex then
        (case bindF (getPartition (qa_at d q) partitionIndex) Partition_isEmpty of
           Inl e \<Rightarrow> Inl e
         | Inr wasEmpty \<Rightarrow>
             if \<not> wasEmpty then freeUpPartition_loop d q orderIndex (partitionIndex - 1)
             else
               (case offlinePartition d q partitionIndex orderIndex of
                  Inl e \<Rightarrow> Inl e
                | Inr (cleared, d1) \<Rightarrow>
                    (case (if cleared
                           then bindF (getPartition (qa_at d1 q) partitionIndex) Partition_isEmpty
                           else Inr False) of
                       Inl e \<Rightarrow> Inl e
                     | Inr stillEmpty \<Rightarrow>
                         if \<not> cleared \<or> \<not> stillEmpty then
                           (case onlinePartition d1 q partitionIndex orderIndex of
                              Inl e \<Rightarrow> Inl e
                            | Inr d2 \<Rightarrow>
                                freeUpPartition_loop d2 q orderIndex (partitionIndex - 1))
                         else
                           (let sz = orderToSize (orderIndex + smallestSizeOrder (qa_at d1 q)) in
                            bindF (newPartition d1 q partitionIndex sz) (\<lambda>d2.
                            bindF (addToOrder d2 q orderIndex partitionIndex) (\<lambda>d3.
                              Inr (Some partitionIndex, d3)))))))
      else Inr (None, d))"
  by pat_completeness auto
termination
  by (relation "measure (\<lambda>(d, q, orderIndex, partitionIndex). nat (partitionIndex + 1))") auto

declare freeUpPartition_loop.simps [simp del]

definition freeUpPartition :: "Director \<Rightarrow> nat \<Rightarrow> int \<Rightarrow> fault + (int option \<times> Director)" where
  "freeUpPartition d q orderIndex =
     freeUpPartition_loop d q orderIndex (partitionCount (qa_at d q) - 1)"

definition getFreePartition :: "Director \<Rightarrow> nat \<Rightarrow> int \<Rightarrow> fault + (int option \<times> Director)" where
  "getFreePartition d q orderIndex =
     bindF (newOrderPartition d q orderIndex) (\<lambda>(p, d1).
       case p of Some i \<Rightarrow> Inr (Some i, d1) | None \<Rightarrow> freeUpPartition d1 q orderIndex)"

record PartitionIterator =
  it_orderIndex :: int
  it_index :: int
  allocateNew :: bool
  continuous :: bool

definition PartitionIterator_new :: "QuantumAllocator \<Rightarrow> u64 \<Rightarrow> bool \<Rightarrow> bool \<Rightarrow> PartitionIterator" where
  "PartitionIterator_new a sz allocNew cont =
     \<lparr>it_orderIndex = getOrderIndex a sz, it_index = 0, allocateNew = allocNew,
      continuous = cont\<rparr>"

definition PartitionIterator_next ::
  "Director \<Rightarrow> nat \<Rightarrow> PartitionIterator \<Rightarrow> fault + (int option \<times> PartitionIterator \<times> Director)" where
  "PartitionIterator_next d q it =
     bindF (getOrderRegistry (qa_at d q) (it_orderIndex it)) (\<lambda>r.
     bindF (nextSet r (it_index it)) (\<lambda>(partitionIndex, idx').
       let it1 = it\<lparr>it_index := idx'\<rparr> in
       if partitionIndex \<noteq> NOT_FOUND then
         bindF (getPartition (qa_at d q) partitionIndex) (\<lambda>_. Inr (Some partitionIndex, it1, d))
       else if allocateNew it1 then
         (let it2 = (if \<not> continuous it1 then it1\<lparr>allocateNew := False\<rparr> else it1) in
          bindF (getFreePartition d q (it_orderIndex it2)) (\<lambda>(p, d'). Inr (p, it2, d')))
       else Inr (None, it1, d)))"

definition partitionFromAddress :: "QuantumAllocator \<Rightarrow> address \<Rightarrow> fault + (int \<times> Partition)" where
  "partitionFromAddress a address =
     (let partitionIndex = Address_getIndex address (base a) (partitionSizeOrder a) in
      bindF (getPartition a partitionIndex) (\<lambda>p. Inr (partitionIndex, p)))"

text \<open>
  The loops over the iterator need not end (a partition that holds no quantum is handed
  out again and again), so they carry fuel; running out of it is the fault \<open>OutOfFuel\<close>.
\<close>

fun QuantumAllocator_allocate_loop ::
  "nat \<Rightarrow> Director \<Rightarrow> nat \<Rightarrow> PartitionIterator \<Rightarrow> u64 \<Rightarrow> fault + (address \<times> Director)" where
  "QuantumAllocator_allocate_loop 0 d q it sz = Inl OutOfFuel"
| "QuantumAllocator_allocate_loop (Suc fuel) d q it sz =
     bindF (PartitionIterator_next d q it) (\<lambda>(p, it', d1).
       case p of
         None \<Rightarrow> Inr (0, d1)
       | Some partitionIndex \<Rightarrow>
           bindF (getPartition (qa_at d1 q) partitionIndex) (\<lambda>partition.
           bindF (Partition_allocate partition sz) (\<lambda>(address, partition').
           bindF (putPartition (qa_at d1 q) partitionIndex partition') (\<lambda>a'.
             if address \<noteq> 0 then Inr (address, qa_update d1 q a')
             else QuantumAllocator_allocate_loop fuel (qa_update d1 q a') q it' sz))))"

definition QuantumAllocator_allocate ::
  "nat \<Rightarrow> Director \<Rightarrow> nat \<Rightarrow> u64 \<Rightarrow> fault + (address \<times> Director)" where
  "QuantumAllocator_allocate fuel d q sz =
     QuantumAllocator_allocate_loop fuel d q (PartitionIterator_new (qa_at d q) sz True True) sz"

definition QuantumAllocator_deallocate :: "Director \<Rightarrow> nat \<Rightarrow> address \<Rightarrow> fault + Director" where
  "QuantumAllocator_deallocate d q address =
     (let a = qa_at d q in
      bindF (partitionFromAddress a address) (\<lambda>(partitionIndex, partition).
      bindF (Partition_deallocate partition address) (\<lambda>partition'.
      bindF (putPartition a partitionIndex partition') (\<lambda>a'. Inr (qa_update d q a')))))"

fun allocateBulk_contiguous_loop ::
  "nat \<Rightarrow> Director \<Rightarrow> nat \<Rightarrow> PartitionIterator \<Rightarrow> int \<Rightarrow> address list \<Rightarrow> int
     \<Rightarrow> fault + (int \<times> address list \<times> Director)" where
  "allocateBulk_contiguous_loop 0 d q it cnt buf allocated = Inl OutOfFuel"
| "allocateBulk_contiguous_loop (Suc fuel) d q it cnt buf allocated =
     (if allocated < cnt then
        bindF (PartitionIterator_next d q it) (\<lambda>(p, it', d1).
          case p of
            None \<Rightarrow> Inr (allocated, buf, d1)
          | Some partitionIndex \<Rightarrow>
              bindF (getPartition (qa_at d1 q) partitionIndex) (\<lambda>partition.
              bindF (allocateBulkContiguous partition cnt buf 0) (\<lambda>(n, buf', partition').
              bindF (putPartition (qa_at d1 q) partitionIndex partition') (\<lambda>a'.
                allocateBulk_contiguous_loop fuel (qa_update d1 q a') q it' cnt buf'
                  (allocated + n)))))
      else Inr (allocated, buf, d))"

fun allocateBulk_scattered_loop ::
  "nat \<Rightarrow> Director \<Rightarrow> nat \<Rightarrow> PartitionIterator \<Rightarrow> int \<Rightarrow> address list \<Rightarrow> int
     \<Rightarrow> fault + (int \<times> address list \<times> Director)" where
  "allocateBulk_scattered_loop 0 d q it cnt buf allocated = Inl OutOfFuel"
| "allocateBulk_scattered_loop (Suc fuel) d q it cnt buf allocated =
     (if allocated < cnt then
        bindF (PartitionIterator_next d q it) (\<lambda>(p, it', d1).
          case p of
            None \<Rightarrow> Inr (allocated, buf, d1)
          | Some partitionIndex \<Rightarrow>
              bindF (getPartition (qa_at d1 q) partitionIndex) (\<lambda>partition.
              bindF (Partition_allocateBulk partition (cnt - allocated) buf allocated)
                (\<lambda>(n, buf', partition').
              bindF (putPartition (qa_at d1 q) partitionIndex partition') (\<lambda>a'.
                allocateBulk_scattered_loop fuel (qa_update d1 q a') q it' cnt buf'
                  (allocated + n)))))
      else Inr (allocated, buf, d))"

definition QuantumAllocator_allocateBulk ::
  "nat \<Rightarrow> Director \<Rightarrow> nat \<Rightarrow> u64 \<Rightarrow> int \<Rightarrow> address list \<Rightarrow> bool
     \<Rightarrow> fault + (int \<times> address list \<times> Director)" where
  "QuantumAllocator_allocateBulk fuel d q sz cnt buf contiguous =
     (let a = qa_at d q; it = PartitionIterator_new a sz True False in
      if contiguous then
        (if cnt \<le> orderDiv (partitionSize a) (sizeToOrder sz)
         then allocateBulk_contiguous_loop fuel d q it cnt buf 0
         else Inr (0, buf, d))
      else allocateBulk_scattered_loop fuel d q it cnt buf 0)"

definition QuantumAllocator_clear :: "Director \<Rightarrow> nat \<Rightarrow> address \<Rightarrow> fault + Director" where
  "QuantumAllocator_clear d q address =
     bindF (partitionFromAddress (qa_at d q) address) (\<lambda>(partitionIndex, partition).
       Inr (d\<lparr>system := Partition_clear partition (system d) address\<rparr>))"

definition QuantumAllocator_allocationSize :: "QuantumAllocator \<Rightarrow> address \<Rightarrow> fault + u64" where
  "QuantumAllocator_allocationSize a address =
     bindF (partitionFromAddress a address) (\<lambda>(partitionIndex, partition).
       Inr (Partition_allocationSize partition address))"

definition QuantumAllocator_allocationBase :: "QuantumAllocator \<Rightarrow> address \<Rightarrow> fault + address" where
  "QuantumAllocator_allocationBase a address =
     bindF (partitionFromAddress a address) (\<lambda>(partitionIndex, partition).
       Inr (Partition_allocationBase partition address))"

definition QuantumAllocator_allocationSideData :: "QuantumAllocator \<Rightarrow> address \<Rightarrow> fault + address" where
  "QuantumAllocator_allocationSideData a address =
     bindF (partitionFromAddress a address) (\<lambda>(partitionIndex, partition).
       Inr (Partition_allocationSideData partition address))"

function QuantumAllocator_stats_loop ::
  "QuantumAllocator \<Rightarrow> int \<Rightarrow> u64 list \<Rightarrow> u64 list \<Rightarrow> fault + (u64 list \<times> u64 list)" where
  "QuantumAllocator_stats_loop a i counts sizes =
     (if i < partitionCount a then
        (case isSet (partitionRegistry a) i of
           Inl e \<Rightarrow> Inl e
         | Inr s \<Rightarrow>
             if s then
               (case bindF (getPartition a i) (\<lambda>p. Partition_stats p counts sizes) of
                  Inl e \<Rightarrow> Inl e
                | Inr (counts', sizes') \<Rightarrow> QuantumAllocator_stats_loop a (i + 1) counts' sizes')
             else QuantumAllocator_stats_loop a (i + 1) counts sizes)
      else Inr (counts, sizes))"
  by pat_completeness auto
termination
  by (relation "measure (\<lambda>(a, i, counts, sizes). nat (partitionCount a - i))") auto

declare QuantumAllocator_stats_loop.simps [simp del]

definition QuantumAllocator_stats ::
  "Layout \<Rightarrow> QuantumAllocator \<Rightarrow> u64 list \<Rightarrow> u64 list \<Rightarrow> fault + (u64 list \<times> u64 list)" where
  "QuantumAllocator_stats lay a counts sizes =
     bindF (bump sizes 1
              (sizeof_QuantumAllocator lay + word_of_int (partitionCount a) * sizeof_Partition lay))
       (\<lambda>sizes1. QuantumAllocator_stats_loop a 0 counts sizes1)"

definition QuantumAllocator_new ::
  "bool \<Rightarrow> int \<Rightarrow> int \<Rightarrow> int \<Rightarrow> int \<Rightarrow> address \<Rightarrow> int \<Rightarrow> address \<Rightarrow> QuantumAllocator" where
  "QuantumAllocator_new sh smallest largest partSizeOrder partCount b sdSize sd =
     \<lparr>base = b, limit = b + orderToSize partSizeOrder * word_of_int partCount,
      ID = QuantumAllocatorID, smallestSizeOrder = smallest, largestSizeOrder = largest,
      qa_sharing = sh, partitionSizeOrder = partSizeOrder, partitionCount = partCount,
      partitionSize = orderToSize partSizeOrder,
      smallestSize = orderToSize smallest, largestSize = orderToSize largest,
      partitions = replicate (nat partCount) Partition_zero,
      partitionRegistry = Registry_new partCount,
      orderRegistry = replicate (nat MAX_QUANTUM_ALLOCATOR_ORDERS) (Registry_new partCount),
      qa_sideDataSize = sdSize, sideData = sd\<rparr>"

subsection \<open>SlabAllocator\<close>

definition SLAB_ALIGNMENT :: u64 where
  "SLAB_ALIGNMENT = orderToSize LARGEST_SIZE_ORDER"

definition slab_at :: "SlabAllocator \<Rightarrow> int \<Rightarrow> fault + Space" where
  "slab_at sa i =
     (if 0 \<le> i \<and> i < int (length (slabs sa)) then Inr (slabs sa ! nat i)
      else Inl (SlabIndexOutOfRange i))"

definition slab_put :: "SlabAllocator \<Rightarrow> int \<Rightarrow> Space \<Rightarrow> fault + SlabAllocator" where
  "slab_put sa i s =
     (if 0 \<le> i \<and> i < int (length (slabs sa)) then Inr (sa\<lparr>slabs := (slabs sa)[nat i := s]\<rparr>)
      else Inl (SlabIndexOutOfRange i))"

function find_loop :: "SlabAllocator \<Rightarrow> address \<Rightarrow> int \<Rightarrow> fault + int" where
  "find_loop sa a i =
     (if i < maxCount sa then
        (case slab_at sa i of
           Inl e \<Rightarrow> Inl e
         | Inr s \<Rightarrow>
             if inSpace s a then
               (case isSet (slab_registry sa) i of
                  Inl e \<Rightarrow> Inl e
                | Inr b \<Rightarrow> if b then Inr i else find_loop sa a (i + 1))
             else find_loop sa a (i + 1))
      else Inr NOT_FOUND)"
  by pat_completeness auto
termination
  by (relation "measure (\<lambda>(sa, a, i). nat (maxCount sa - i))") auto

declare find_loop.simps [simp del]

definition find :: "SlabAllocator \<Rightarrow> address \<Rightarrow> fault + int" where
  "find sa a = find_loop sa a 0"

definition record_slab :: "SlabAllocator \<Rightarrow> address \<Rightarrow> u64 \<Rightarrow> fault + (int \<times> SlabAllocator)" where
  "record_slab sa b sz =
     bindF (findFree (slab_registry sa)) (\<lambda>(index, r').
       let sa1 = sa\<lparr>slab_registry := r'\<rparr> in
       if index = NOT_FOUND then Inr (NOT_FOUND, sa1)
       else bindF (slab_put sa1 index (Space_new b sz)) (\<lambda>sa2. Inr (index, sa2)))"

definition erase :: "SlabAllocator \<Rightarrow> int \<Rightarrow> fault + SlabAllocator" where
  "erase sa index =
     bindF (free (slab_registry sa) index) (\<lambda>r'. Inr (sa\<lparr>slab_registry := r'\<rparr>))"

definition SlabAllocator_reserve ::
  "SlabAllocator \<Rightarrow> System \<Rightarrow> u64 \<Rightarrow> fault + (address \<times> SlabAllocator \<times> System)" where
  "SlabAllocator_reserve sa sys sz =
     bindF (findFree (slab_registry sa)) (\<lambda>(index, r').
       let sa1 = sa\<lparr>slab_registry := r'\<rparr> in
       if index = NOT_FOUND then Inr (0, sa1, sys)
       else
         bindF (slab_at sa1 index) (\<lambda>slab.
           let b = base slab;
               slabSize = Space_size slab;
               sys1 = (if sz < slabSize then release sys (b + sz) (slabSize - sz) else sys)
           in
           if sz \<le> slabSize then
             (let sys2 = (if secure sa1 then commit sys1 b sz else sys1) in
              bindF (slab_put sa1 index (Space_new b sz)) (\<lambda>sa2. Inr (b, sa2, sys2)))
           else
             (let sys2 = (if slabSize \<noteq> 0 then release sys1 b slabSize else sys1);
                  (b', sys3) = reserveAligned sys2 sz SLAB_ALIGNMENT
              in
              if b' = 0 then
                bindF (free (slab_registry sa1) index) (\<lambda>r''.
                  Inr (0, sa1\<lparr>slab_registry := r''\<rparr>, sys3))
              else
                bindF (slab_put sa1 index (Space_new b' sz)) (\<lambda>sa2.
                  Inr (b', sa2, commit sys3 b' sz)))))"

definition SlabAllocator_new :: "bool \<Rightarrow> int \<Rightarrow> int \<Rightarrow> address \<Rightarrow> SlabAllocator" where
  "SlabAllocator_new sec maxCnt sdSize sd =
     \<lparr>base = 0, limit = 0 + ALL_ONES, ID = SlabAllocatorID,
      smallestSizeOrder = LARGEST_SIZE_ORDER + 1, largestSizeOrder = MAX_ALLOCATION_ORDER,
      secure = sec, maxCount = maxCnt,
      slabs = replicate (nat maxCnt) \<lparr>base = 0, limit = 0\<rparr>,
      slab_sideDataSize = sdSize, slab_sideData = sd,
      slab_registry = Registry_new maxCnt\<rparr>"

definition SlabAllocator_allocate ::
  "SlabAllocator \<Rightarrow> System \<Rightarrow> u64 \<Rightarrow> fault + (address \<times> SlabAllocator \<times> System)" where
  "SlabAllocator_allocate sa sys sz = SlabAllocator_reserve sa sys (roundUp sz M)"

definition SlabAllocator_deallocate :: "SlabAllocator \<Rightarrow> address \<Rightarrow> fault + SlabAllocator" where
  "SlabAllocator_deallocate sa a =
     bindF (find sa a) (\<lambda>index. if index = NOT_FOUND then Inr sa else erase sa index)"

definition SlabAllocator_clear :: "SlabAllocator \<Rightarrow> System \<Rightarrow> address \<Rightarrow> fault + System" where
  "SlabAllocator_clear sa sys a =
     bindF (find sa a) (\<lambda>index.
       if index = NOT_FOUND then Inr sys
       else bindF (slab_at sa index) (\<lambda>s. Inr (System_clear sys (base s) (Space_size s) False)))"

text \<open>
  \<^verbatim>\<open>SlabAllocator::allocateBulk\<close>: the region is reserved, then committed, and only then
  is the result of the reservation tested.
\<close>

function record_loop ::
  "SlabAllocator \<Rightarrow> System \<Rightarrow> address \<Rightarrow> u64 \<Rightarrow> int \<Rightarrow> address list \<Rightarrow> int
     \<Rightarrow> fault + (int \<times> address list \<times> SlabAllocator \<times> System)" where
  "record_loop sa sys b roundedSize cnt buf i =
     (if i < cnt then
        (let address = b + word_of_int i * roundedSize in
         case record_slab sa address roundedSize of
           Inl e \<Rightarrow> Inl e
         | Inr (index, sa1) \<Rightarrow>
             if index = NOT_FOUND then
               Inr (i, buf, sa1, release sys address (word_of_int (cnt - i) * roundedSize))
             else
               (case put buf i address of
                  Inl e \<Rightarrow> Inl e
                | Inr buf' \<Rightarrow> record_loop sa1 sys b roundedSize cnt buf' (i + 1)))
      else Inr (cnt, buf, sa, sys))"
  by pat_completeness auto
termination
  by (relation "measure (\<lambda>(sa, sys, b, roundedSize, cnt, buf, i). nat (cnt - i))") auto

declare record_loop.simps [simp del]

definition SlabAllocator_allocateBulk ::
  "SlabAllocator \<Rightarrow> System \<Rightarrow> u64 \<Rightarrow> int \<Rightarrow> address list \<Rightarrow> bool
     \<Rightarrow> fault + (int \<times> address list \<times> SlabAllocator \<times> System)" where
  "SlabAllocator_allocateBulk sa sys sz cnt buf contiguous =
     (let roundedSize = roundUp sz SLAB_ALIGNMENT;
          total = roundedSize * word_of_int cnt;
          (b, sys1) = reserveAligned sys total SLAB_ALIGNMENT;
          sys2 = commit sys1 b total
      in if b = 0 then Inr (0, buf, sa, sys2)
         else record_loop sa sys2 b roundedSize cnt buf 0)"

definition SlabAllocator_allocationSize :: "SlabAllocator \<Rightarrow> address \<Rightarrow> fault + u64" where
  "SlabAllocator_allocationSize sa a =
     bindF (find sa a) (\<lambda>index.
       if index = NOT_FOUND then Inr ZERO
       else bindF (slab_at sa index) (\<lambda>s. Inr (Space_size s)))"

definition SlabAllocator_allocationBase :: "SlabAllocator \<Rightarrow> address \<Rightarrow> fault + address" where
  "SlabAllocator_allocationBase sa a =
     bindF (find sa a) (\<lambda>index.
       if index = NOT_FOUND then Inr 0
       else bindF (slab_at sa index) (\<lambda>s. Inr (base s)))"

definition SlabAllocator_allocationSideData :: "SlabAllocator \<Rightarrow> address \<Rightarrow> fault + address" where
  "SlabAllocator_allocationSideData sa a =
     bindF (find sa a) (\<lambda>index.
       if index = NOT_FOUND then Inr 0
       else Inr (slab_sideData sa + word_of_int (index * slab_sideDataSize sa)))"

function SlabAllocator_stats_loop ::
  "SlabAllocator \<Rightarrow> int \<Rightarrow> u64 list \<Rightarrow> u64 list \<Rightarrow> fault + (u64 list \<times> u64 list)" where
  "SlabAllocator_stats_loop sa i counts sizes =
     (if i < maxCount sa then
        (case isSet (slab_registry sa) i of
           Inl e \<Rightarrow> Inl e
         | Inr s \<Rightarrow>
             if s then
               (case bindF (slab_at sa i) (\<lambda>slab.
                       let sz = Space_size slab; order = sizeToOrder sz in
                       bindF (bump counts order 1) (\<lambda>counts'.
                       bindF (bump sizes order sz) (\<lambda>sizes'. Inr (counts', sizes')))) of
                  Inl e \<Rightarrow> Inl e
                | Inr (counts', sizes') \<Rightarrow> SlabAllocator_stats_loop sa (i + 1) counts' sizes')
             else SlabAllocator_stats_loop sa (i + 1) counts sizes)
      else Inr (counts, sizes))"
  by pat_completeness auto
termination
  by (relation "measure (\<lambda>(sa, i, counts, sizes). nat (maxCount sa - i))") auto

declare SlabAllocator_stats_loop.simps [simp del]

definition SlabAllocator_stats ::
  "Layout \<Rightarrow> SlabAllocator \<Rightarrow> u64 list \<Rightarrow> u64 list \<Rightarrow> fault + (u64 list \<times> u64 list)" where
  "SlabAllocator_stats lay sa counts sizes =
     bindF (bump sizes 1 (sizeof_SlabAllocator lay + word_of_int (maxCount sa) * sizeof_Slab lay))
       (\<lambda>sizes1. SlabAllocator_stats_loop sa 0 counts sizes1)"

subsection \<open>Director\<close>

text \<open>The constructor's body: the roster is filled in this order.\<close>

definition Director_fill_roster :: "Director \<Rightarrow> fault + Director" where
  "Director_fill_roster d =
     bindF (setAllocators (roster d) NullAllocator_ptr 0 SMALLEST_SIZE_ORDER) (\<lambda>r1.
     bindF (setAllocators r1 (QuantumAllocator_ptr 0) 1 (SMALLEST_SIZE_ORDER + 1)) (\<lambda>r2.
     bindF (setAllocators r2 (QuantumAllocator_ptr 0)
              (smallestSizeOrder (qa_at d 0)) (largestSizeOrder (qa_at d 0) + 1)) (\<lambda>r3.
     bindF (setAllocators r3 (QuantumAllocator_ptr 1)
              (smallestSizeOrder (qa_at d 1)) (largestSizeOrder (qa_at d 1) + 1)) (\<lambda>r4.
     bindF (setAllocators r4 (QuantumAllocator_ptr 2)
              (smallestSizeOrder (qa_at d 2)) (largestSizeOrder (qa_at d 2) + 1)) (\<lambda>r5.
     bindF (setAllocators r5 SlabAllocator_ptr (LARGEST_SIZE_ORDER + 1) MAX_ALLOCATION_ORDER)
       (\<lambda>r6.
     bindF (setAllocators r6 NullAllocator_ptr MAX_ALLOCATION_ORDER MAX_ORDER) (\<lambda>r7.
       Inr (d\<lparr>roster := r7\<rparr>))))))))"

definition Director_new ::
  "address \<Rightarrow> u64 \<Rightarrow> bool \<Rightarrow> bool \<Rightarrow> QuantumAllocator list \<Rightarrow> SlabAllocator \<Rightarrow> string \<Rightarrow> System
     \<Rightarrow> fault + Director" where
  "Director_new b sz sh sec qas sa name sys =
     Director_fill_roster
       \<lparr>base = b, limit = b + sz, d_sharing = sh, d_secure = sec,
        roster = replicate (nat MAX_ORDER) Null_ptr, quantumAllocators = qas,
        slabAllocator = sa, reference = 0, linkName = take 255 name, system = sys\<rparr>"

text \<open>
  \<^verbatim>\<open>createDirector\<close>. The regions of the three quantum allocators are laid out first,
  largest to smallest; the administrative structures follow.
\<close>

definition tierPartitionSizeOrder :: "int \<Rightarrow> int" where
  "tierPartitionSizeOrder smallest =
     sizeToOrder (orderMul (word_of_int MAX_PARTITION_QUANTUM) smallest)"

fun regions :: "nat \<Rightarrow> int list \<Rightarrow> int \<Rightarrow> Arena \<Rightarrow> address list \<Rightarrow> address list \<times> Arena" where
  "regions 0 counts smallest arena bases = (bases, arena)"
| "regions (Suc i) counts smallest arena bases =
     (let sz = orderMul (word_of_int (counts ! i)) (tierPartitionSizeOrder smallest);
          (b, arena') = Arena_allocate arena sz
      in regions i counts (smallest - MAX_QUANTUM_ALLOCATOR_ORDERS) arena' (bases[i := b]))"

fun quantumAllocators_new ::
  "nat \<Rightarrow> nat \<Rightarrow> Layout \<Rightarrow> bool \<Rightarrow> int list \<Rightarrow> address list \<Rightarrow> int \<Rightarrow> int \<Rightarrow> int \<Rightarrow> Arena
     \<Rightarrow> QuantumAllocator list \<times> Arena" where
  "quantumAllocators_new 0 i lay sh counts bases sdSize smallest largest arena = ([], arena)"
| "quantumAllocators_new (Suc k) i lay sh counts bases sdSize smallest largest arena =
     (let (sd, arena1) =
            Arena_allocate arena
              (word_of_int (counts ! i) * word_of_int sdSize * word_of_int MAX_PARTITION_QUANTUM);
          (parts, arena2) =
            Arena_allocate arena1 (sizeof_Partition lay * word_of_int (counts ! i));
          (self, arena3) = Arena_allocate arena2 (sizeof_QuantumAllocator lay);
          a = QuantumAllocator_new sh smallest largest (tierPartitionSizeOrder smallest)
                (counts ! i) (bases ! i) sdSize sd;
          (rest, arena4) =
            quantumAllocators_new k (Suc i) lay sh counts bases sdSize
              (smallest + MAX_QUANTUM_ALLOCATOR_ORDERS) (largest + MAX_QUANTUM_ALLOCATOR_ORDERS)
              arena3
      in (a # rest, arena4))"

definition createDirector ::
  "Layout \<Rightarrow> System \<Rightarrow> Arena \<Rightarrow> bool \<Rightarrow> bool \<Rightarrow> bool \<Rightarrow> int list \<Rightarrow> int \<Rightarrow> int \<Rightarrow> string
     \<Rightarrow> fault + (Arena \<times> Director option)" where
  "createDirector lay sys arena creating sh sec counts maxSlabCount sdSize name =
     (let (bases, arena1) =
            regions (nat MAX_QUANTUM_ALLOCATORS) counts
              (LARGEST_SIZE_ORDER - MAX_QUANTUM_ALLOCATOR_ORDERS + 1) arena
              (replicate (nat MAX_QUANTUM_ALLOCATORS) 0);
          (rest, arena2) = Arena_allocate arena1 0;
          sys1 = (if creating \<and> \<not> sh
                  then commit sys rest (Space_size arena1 - Arena_allocated arena1) else sys);
          (ros, arena3) = Arena_allocate arena2 (sizeof_AllocatorRoster lay);
          (qaPtrs, arena4) =
            Arena_allocate arena3 (word_of_int MAX_QUANTUM_ALLOCATORS * sizeof_pointer lay);
          (qas, arena5) =
            quantumAllocators_new (nat MAX_QUANTUM_ALLOCATORS) 0 lay sh counts bases sdSize
              SMALLEST_SIZE_ORDER (SMALLEST_SIZE_ORDER + MAX_QUANTUM_ALLOCATOR_ORDERS - 1) arena4;
          (slabMem, arena6) = Arena_allocate arena5 (word_of_int maxSlabCount * sizeof_Slab lay);
          (slabSideData, arena7) = Arena_allocate arena6 (word_of_int (maxSlabCount * sdSize));
          (saMem, arena8) = Arena_allocate arena7 (sizeof_SlabAllocator lay);
          (dMem, arena9) = Arena_allocate arena8 (sizeof_Director lay)
      in if creating then
           bindF (Director_new (base arena9) (Space_size arena9) sh sec qas
                    (SlabAllocator_new sec maxSlabCount sdSize slabSideData) name sys1)
             (\<lambda>d. Inr (arena9, Some d))
         else Inr (arena9, None))"

text \<open>
  \<^verbatim>\<open>Director::create\<close> without a shared link (the shared-memory protocol is outside the
  model): a dry run sizes the arena, the memory is reserved, the structures are built.
\<close>

definition Director_create ::
  "Layout \<Rightarrow> System \<Rightarrow> address \<Rightarrow> bool \<Rightarrow> int \<Rightarrow> int \<Rightarrow> int \<Rightarrow> int \<Rightarrow> int
     \<Rightarrow> fault + Director option" where
  "Director_create lay sys address sec smallPartitionCount mediumPartitionCount
     largePartitionCount maxSlabCount sdSize =
     (let counts = [smallPartitionCount, mediumPartitionCount, largePartitionCount] in
      bindF (createDirector lay sys Arena_sizing False False sec counts maxSlabCount sdSize [])
        (\<lambda>(sizing, _).
          let sz = roundUp (Arena_allocated sizing) PAGE_SIZE;
              (b, sys1) = (if address = ZERO
                           then reserveAligned sys sz (orderToSize LARGEST_SIZE_ORDER)
                           else reserve sys sz address)
          in if b = 0 then Inr None
             else bindF (createDirector lay sys1 (Arena_new b sz) True False sec counts
                           maxSlabCount sdSize [])
                    (\<lambda>(_, d). Inr d)))"

text \<open>The \<^verbatim>\<open>_ID\<close> of the allocator a roster entry points to.\<close>

definition allocator_ID :: "Director \<Rightarrow> Allocator_ptr \<Rightarrow> fault + int" where
  "allocator_ID d ptr =
     (case ptr of
        Null_ptr \<Rightarrow> Inl NullPointer
      | NullAllocator_ptr \<Rightarrow> Inr NullAllocatorID
      | Partition_ptr q i \<Rightarrow> bindF (getPartition (qa_at d q) i) (\<lambda>p. Inr (ID p))
      | QuantumAllocator_ptr q \<Rightarrow> Inr (ID (qa_at d q))
      | SlabAllocator_ptr \<Rightarrow> Inr (ID (slabAllocator d)))"

definition findAllocatorBySize :: "Director \<Rightarrow> u64 \<Rightarrow> fault + Allocator_ptr" where
  "findAllocatorBySize d sz = getAllocator (roster d) (sizeToOrder sz)"

text \<open>
  The tail of \<^verbatim>\<open>allocate\<close>: the request goes to the quantum allocator or the slab
  allocator that \<open>allocator\<close> points to; any other allocator gives \<^verbatim>\<open>nullptr\<close>.
\<close>

definition dispatch_allocate ::
  "nat \<Rightarrow> Director \<Rightarrow> Allocator_ptr \<Rightarrow> u64 \<Rightarrow> fault + (address \<times> Director)" where
  "dispatch_allocate fuel d allocator alignedSize =
     bindF (allocator_ID d allocator) (\<lambda>i.
       if i = QuantumAllocatorID then
         (case allocator of
            QuantumAllocator_ptr q \<Rightarrow> QuantumAllocator_allocate fuel d q alignedSize
          | _ \<Rightarrow> Inl BadCast)
       else if i = SlabAllocatorID then
         (case allocator of
            SlabAllocator_ptr \<Rightarrow>
              bindF (SlabAllocator_allocate (slabAllocator d) (system d) alignedSize)
                (\<lambda>(a, sa', sys'). Inr (a, d\<lparr>slabAllocator := sa', system := sys'\<rparr>))
          | _ \<Rightarrow> Inl BadCast)
       else Inr (0, d))"

definition Director_allocate :: "nat \<Rightarrow> Director \<Rightarrow> u64 \<Rightarrow> fault + (address \<times> Director)" where
  "Director_allocate fuel d sz =
     (let alignedSize = roundUpPowerOf2 sz in
      bindF (findAllocatorBySize d alignedSize) (\<lambda>allocator.
      bindF (allocator_ID d allocator) (\<lambda>i.
        if i = PartitionID then
          (case allocator of
             Partition_ptr q partitionIndex \<Rightarrow>
               bindF (getPartition (qa_at d q) partitionIndex) (\<lambda>partition.
               bindF (Partition_allocate partition alignedSize) (\<lambda>(address, partition').
               bindF (putPartition (qa_at d q) partitionIndex partition') (\<lambda>a'.
                 let d1 = qa_update d q a' in
                 if address \<noteq> 0 then Inr (address, d1)
                 else
                   dispatch_allocate fuel d1
                     (case quantumAllocator partition' of
                        Some q' \<Rightarrow> QuantumAllocator_ptr q'
                      | None \<Rightarrow> Null_ptr)
                     alignedSize)))
           | _ \<Rightarrow> Inl BadCast)
        else dispatch_allocate fuel d allocator alignedSize)))"

text \<open>The first of the three quantum allocators whose space holds the address.\<close>

definition quantumAllocatorOf :: "Director \<Rightarrow> address \<Rightarrow> nat option" where
  "quantumAllocatorOf d a =
     (if inSpace (qa_at d 0) a then Some 0
      else if inSpace (qa_at d 1) a then Some 1
      else if inSpace (qa_at d 2) a then Some 2
      else None)"

definition Director_deallocate :: "Director \<Rightarrow> address \<Rightarrow> fault + Director" where
  "Director_deallocate d a =
     (case quantumAllocatorOf d a of
        Some q \<Rightarrow>
          bindF (if d_secure d then QuantumAllocator_clear d q a else Inr d) (\<lambda>d1.
            QuantumAllocator_deallocate d1 q a)
      | None \<Rightarrow>
          bindF (SlabAllocator_deallocate (slabAllocator d) a) (\<lambda>sa'.
            Inr (d\<lparr>slabAllocator := sa'\<rparr>)))"

definition Director_allocationSize :: "Director \<Rightarrow> address \<Rightarrow> fault + u64" where
  "Director_allocationSize d a =
     (case quantumAllocatorOf d a of
        Some q \<Rightarrow> QuantumAllocator_allocationSize (qa_at d q) a
      | None \<Rightarrow> SlabAllocator_allocationSize (slabAllocator d) a)"

definition Director_allocationBase :: "Director \<Rightarrow> address \<Rightarrow> fault + address" where
  "Director_allocationBase d a =
     (case quantumAllocatorOf d a of
        Some q \<Rightarrow> QuantumAllocator_allocationBase (qa_at d q) a
      | None \<Rightarrow> SlabAllocator_allocationBase (slabAllocator d) a)"

definition Director_allocationSideData :: "Director \<Rightarrow> address \<Rightarrow> fault + address" where
  "Director_allocationSideData d a =
     (case quantumAllocatorOf d a of
        Some q \<Rightarrow> QuantumAllocator_allocationSideData (qa_at d q) a
      | None \<Rightarrow> SlabAllocator_allocationSideData (slabAllocator d) a)"

definition Director_reallocate ::
  "nat \<Rightarrow> Director \<Rightarrow> address \<Rightarrow> u64 \<Rightarrow> fault + (address \<times> Director)" where
  "Director_reallocate fuel d oldAddress newSize =
     (if oldAddress = 0 then Director_allocate fuel d newSize
      else
        bindF (Director_allocationSize d oldAddress) (\<lambda>oldSize.
          if oldSize < roundUpPowerOf2 newSize \<or> sizeToOrder newSize < sizeToOrder oldSize then
            bindF (Director_allocate fuel d newSize) (\<lambda>(newAddress, d1).
              if newAddress \<noteq> 0 \<and> oldSize \<noteq> ZERO then
                bindF (Director_deallocate
                         (d1\<lparr>system := System_copy (system d1) oldAddress newAddress oldSize\<rparr>)
                         oldAddress)
                  (\<lambda>d2. Inr (newAddress, d2))
              else Inr (newAddress, d1))
          else Inr (oldAddress, d)))"

definition Director_allocateBulk ::
  "nat \<Rightarrow> Director \<Rightarrow> u64 \<Rightarrow> int \<Rightarrow> address list \<Rightarrow> bool
     \<Rightarrow> fault + (int \<times> address list \<times> Director)" where
  "Director_allocateBulk fuel d sz cnt buf contiguous =
     (let order = sizeToOrder sz in
      if order \<le> largestSizeOrder (qa_at d 0)
      then QuantumAllocator_allocateBulk fuel d 0 sz cnt buf contiguous
      else if order \<le> largestSizeOrder (qa_at d 1)
      then QuantumAllocator_allocateBulk fuel d 1 sz cnt buf contiguous
      else if order \<le> largestSizeOrder (qa_at d 2)
      then QuantumAllocator_allocateBulk fuel d 2 sz cnt buf contiguous
      else
        bindF (SlabAllocator_allocateBulk (slabAllocator d) (system d) sz cnt buf contiguous)
          (\<lambda>(n, buf', sa', sys'). Inr (n, buf', d\<lparr>slabAllocator := sa', system := sys'\<rparr>)))"

function sum_from :: "u64 list \<Rightarrow> int \<Rightarrow> u64 \<Rightarrow> fault + u64" where
  "sum_from xs i acc =
     (if i < QB_STATS_SIZE then
        (if 0 \<le> i \<and> i < int (length xs) then sum_from xs (i + 1) (acc + xs ! nat i)
         else Inl (StatsIndexOutOfRange i))
      else Inr acc)"
  by pat_completeness auto
termination
  by (relation "measure (\<lambda>(xs, i, acc). nat (QB_STATS_SIZE - i))") auto

declare sum_from.simps [simp del]

text \<open>
  \<^verbatim>\<open>stats\<close> clears the two caller's buffers of \<^verbatim>\<open>QB_STATS_SIZE\<close> words and fills them; the
  model returns them.
\<close>

definition Director_stats :: "Layout \<Rightarrow> Director \<Rightarrow> fault + (u64 list \<times> u64 list)" where
  "Director_stats lay d =
     (let counts0 = replicate (nat QB_STATS_SIZE) 0; sizes0 = replicate (nat QB_STATS_SIZE) 0 in
      bindF (bump counts0 1 1) (\<lambda>counts1.
      bindF (bump sizes0 1 (sizeof_Director lay)) (\<lambda>sizes1.
      bindF (QuantumAllocator_stats lay (qa_at d 0) counts1 sizes1) (\<lambda>(c2, s2).
      bindF (QuantumAllocator_stats lay (qa_at d 1) c2 s2) (\<lambda>(c3, s3).
      bindF (QuantumAllocator_stats lay (qa_at d 2) c3 s3) (\<lambda>(c4, s4).
      bindF (SlabAllocator_stats lay (slabAllocator d) c4 s4) (\<lambda>(c5, s5).
      bindF (sum_from c5 1 0) (\<lambda>cnt.
      bindF (sum_from s5 1 0) (\<lambda>total.
        Inr (c5[0 := cnt], s5[0 := total]))))))))))"

subsection \<open>Evaluation rules\<close>

lemmas system_eval =
  MAP_FAILED_def reserve_def release_def commit_def System_clear_def System_copy_def
  reserveAligned_def

lemmas space_eval =
  Space_new_def Space_size_def inSpace_def Arena_sizing_def Arena_new_def Arena_allocate_def
  Arena_allocated_def NullAllocatorID_def PartitionID_def QuantumAllocatorID_def
  SlabAllocatorID_def

lemmas partition_eval =
  Partition_zero_def Partition_new_def Address_getIndex_def quantumIndex_def quantumSize_def
  Partition_isEmpty_def Partition_allocate_def Partition_deallocate_def put_def
  synthesize.simps allocateBulkContiguous_def Partition_allocationSize_def
  Partition_allocationBase_def Partition_allocationSideData_def Partition_clear_def bump_def
  Partition_stats_def bulk_word.simps iterate_loop.simps Partition_allocateBulk_def

lemmas roster_eval = getAllocator_def setAllocator_def setAllocators.simps

lemmas quantum_eval =
  qa_at_def qa_update_def getPartition_def putPartition_def getOrderRegistry_def
  putOrderRegistry_def newPartition_def getOrderIndex_def onlinePartition_def
  offlinePartition_def addToOrder_def partitionBase_def allocatePartition_def
  newOrderPartition_def freeUpPartition_loop.simps freeUpPartition_def getFreePartition_def
  PartitionIterator_new_def PartitionIterator_next_def partitionFromAddress_def
  QuantumAllocator_allocate_def QuantumAllocator_deallocate_def
  QuantumAllocator_allocateBulk_def QuantumAllocator_clear_def
  QuantumAllocator_allocationSize_def QuantumAllocator_allocationBase_def
  QuantumAllocator_allocationSideData_def QuantumAllocator_stats_loop.simps
  QuantumAllocator_stats_def QuantumAllocator_new_def

lemmas slab_eval =
  SLAB_ALIGNMENT_def slab_at_def slab_put_def find_loop.simps find_def record_slab_def
  erase_def SlabAllocator_reserve_def SlabAllocator_new_def SlabAllocator_allocate_def
  SlabAllocator_deallocate_def SlabAllocator_clear_def record_loop.simps
  SlabAllocator_allocateBulk_def SlabAllocator_allocationSize_def
  SlabAllocator_allocationBase_def SlabAllocator_allocationSideData_def
  SlabAllocator_stats_loop.simps SlabAllocator_stats_def

lemmas director_eval =
  Director_fill_roster_def Director_new_def tierPartitionSizeOrder_def createDirector_def
  Director_create_def allocator_ID_def findAllocatorBySize_def dispatch_allocate_def
  Director_allocate_def quantumAllocatorOf_def Director_deallocate_def
  Director_allocationSize_def Director_allocationBase_def Director_allocationSideData_def
  Director_reallocate_def Director_allocateBulk_def sum_from.simps Director_stats_def

lemmas qba_eval =
  qba_consts bit_eval registry_eval system_eval space_eval partition_eval roster_eval
  quantum_eval slab_eval director_eval

section \<open>A concrete instance\<close>

text \<open>
  The sizes of the C++ objects on a 64-bit target, and an operating system whose first three
  reservations succeed at the given addresses.
\<close>

definition example_layout :: Layout where
  "example_layout =
     \<lparr>sizeof_AllocatorRoster = 512, sizeof_Partition = 2136, sizeof_QuantumAllocator = 18640,
      sizeof_Slab = 24, sizeof_SlabAllocator = 2128, sizeof_Director = 360,
      sizeof_pointer = 8\<rparr>"

definition example_system :: System where
  "example_system =
     \<lparr>mmap_results = [0x7F0000000000, 0x7E0000000000, 0x7D0000000000], calls = []\<rparr>"

text \<open>The roster the constructor of \<open>Director\<close> leaves behind.\<close>

definition fresh_roster :: "Allocator_ptr list" where
  "fresh_roster =
     NullAllocator_ptr # replicate 10 (QuantumAllocator_ptr 0) @
     replicate 8 (QuantumAllocator_ptr 1) @ replicate 8 (QuantumAllocator_ptr 2) @
     replicate 21 SlabAllocator_ptr @ replicate 16 NullAllocator_ptr"

text \<open>
  The instance that \<open>create(0, nullptr, false, 1, 1, 1, 2, 0)\<close> builds: one partition in each
  tier and room for two slabs.
\<close>

definition example_director :: Director where
  "example_director =
     \<lparr>base = 0x7F0000000000, limit = 0x7F0202030000, d_sharing = False, d_secure = False,
      roster = fresh_roster,
      quantumAllocators =
        [QuantumAllocator_new False 3 10 17 1 0x7F0202000000 0 0x7F0202020218,
         QuantumAllocator_new False 11 18 25 1 0x7F0200000000 0 0x7F0202025340,
         QuantumAllocator_new False 19 26 33 1 0x7F0000000000 0 0x7F020202A468],
      slabAllocator = SlabAllocator_new False 2 0 0x7F020202F5C0,
      reference = 0, linkName = [],
      system =
        \<lparr>mmap_results = [0x7E0000000000, 0x7D0000000000],
         calls = [Mmap 0 8690790400, Munmap 0x7F0202030000 67104768,
                  Commit 0x7F0202020000 65536]\<rparr>\<rparr>"

lemma Director_create_example:
  "Director_create example_layout example_system 0 False 1 1 1 2 0 = Inr (Some example_director)"
  by code_simp

section \<open>Claims about allocation\<close>

subsection \<open>A block smaller than the request\<close>

text \<open>
  On the example instance: allocate 8 bytes, free the block, then ask twice for 16 bytes.
  The trace returns the first address, the results of the two later allocations and the
  allocation size of the last one.
\<close>

definition reuse_trace :: "fault + (address \<times> address \<times> address \<times> u64)" where
  "reuse_trace =
     bindF (Director_allocate 2 example_director 8) (\<lambda>(a1, d1).
     bindF (Director_deallocate d1 a1) (\<lambda>d2.
     bindF (Director_allocate 2 d2 16) (\<lambda>(a2, d3).
     bindF (Director_allocate 2 d3 16) (\<lambda>(a3, d4).
     bindF (Director_allocationSize d4 a3) (\<lambda>s3. Inr (a1, a2, a3, s3))))))"

text \<open>
  Claim C1 (the block returned by \<open>allocate(s)\<close> has a size of at least \<open>s\<close>) fails on the
  code. The small tier has a single partition; the first allocation gives it the 8-byte
  quantum. Once the block is freed, the first request for 16 bytes finds no partition of
  its order and calls \<open>freeUpPartition(1)\<close>, which takes the empty partition "offline" in the
  registry of the \<^emph>\<open>requested\<close> order, where it never was, and on that failure puts it
  "online" in that same registry; the request returns null. The partition, still cut into
  8-byte quanta, is now registered for 16-byte requests, so the second request for 16
  bytes returns a non-null block whose allocation size is 8.
\<close>

theorem allocate_returns_smaller_block:
  "reuse_trace = Inr (0x7F0202000000, 0, 0x7F0202000000, 8)"
  unfolding reuse_trace_def by code_simp

subsection \<open>Committing a failed reservation\<close>

lemma SlabAllocator_allocateBulk_reserve_fails:
  assumes "mmap_results sys = []"
  shows "SlabAllocator_allocateBulk sa sys sz cnt buf c =
     Inr (0, buf, sa,
       sys\<lparr>calls := calls sys @
         [Mmap 0 (roundUp sz SLAB_ALIGNMENT * word_of_int cnt + SLAB_ALIGNMENT - PAGE_SIZE),
          Munmap (roundUp sz SLAB_ALIGNMENT * word_of_int cnt) (SLAB_ALIGNMENT - PAGE_SIZE),
          Commit 0 (roundUp sz SLAB_ALIGNMENT * word_of_int cnt)]\<rparr>)"
  using assms
  by (simp add: SlabAllocator_allocateBulk_def system_eval Let_def roundUp_def MASK_def
      SLAB_ALIGNMENT_def qba_consts orderToSize_def)

text \<open>
  Claim C9 (in \<open>SlabAllocator::allocateBulk\<close>, \<open>System::commit\<close> is never invoked with a null
  base) fails on the code. With an operating system that refuses the reservation,
  \<open>allocateBulk(128M, 1, out, true)\<close> returns 0 and records no slab, but the log of system
  calls ends with a commit at address 0: the function commits the result of
  \<open>reserveAligned\<close> before it tests it.
\<close>

theorem SlabAllocator_allocateBulk_commits_null:
  "SlabAllocator_allocateBulk (SlabAllocator_new False 4 0 0)
      \<lparr>mmap_results = [], calls = []\<rparr> 134217728 1 [0] True =
   Inr (0, [0], SlabAllocator_new False 4 0 0,
      \<lparr>mmap_results = [],
       calls = [Mmap 0 201322496, Munmap 134217728 67104768, Commit 0 134217728]\<rparr>)"
  by (simp add: qba_eval)

section \<open>Claims about addresses the instance does not own\<close>

text \<open>
  An address is unmanaged when it lies in the region of none of the three quantum
  allocators and in none of the slabs the slab allocator has on record.
\<close>

definition unmanaged :: "Director \<Rightarrow> address \<Rightarrow> bool" where
  "unmanaged d p =
     (quantumAllocatorOf d p = None \<and> list_all (\<lambda>s. \<not> inSpace s p) (slabs (slabAllocator d)))"

lemma find_loop_not_found:
  assumes "list_all (\<lambda>s. \<not> inSpace s p) (slabs sa)"
    and "maxCount sa \<le> int (length (slabs sa))"
    and "0 \<le> i"
  shows "find_loop sa p i = Inr NOT_FOUND"
  using assms
proof (induction sa p i rule: find_loop.induct)
  case (1 sa a i)
  show ?case
  proof (cases "i < maxCount sa")
    case False
    then show ?thesis
      by (subst find_loop.simps) simp
  next
    case True
    with "1.prems" have i: "0 \<le> i" "i < int (length (slabs sa))"
      by auto
    then have s: "slab_at sa i = Inr (slabs sa ! nat i)"
      by (simp add: slab_at_def)
    from i "1.prems"(1) have out: "\<not> inSpace (slabs sa ! nat i) a"
      by (simp add: list_all_length)
    from "1.IH"(2) [OF True s out] "1.prems" have "find_loop sa a (i + 1) = Inr NOT_FOUND"
      by simp
    with True s out show ?thesis
      by (subst find_loop.simps) simp
  qed
qed

lemma find_unmanaged:
  assumes "unmanaged d p"
    and "maxCount (slabAllocator d) \<le> int (length (slabs (slabAllocator d)))"
  shows "find (slabAllocator d) p = Inr NOT_FOUND"
  using assms unfolding find_def unmanaged_def
  by (intro find_loop_not_found) simp_all

text \<open>
  Claim C7. For an address the instance does not own, \<open>deallocate\<close> leaves the whole state
  as it was and \<open>allocationSize\<close>, \<open>allocationBase\<close> and \<open>allocationSideData\<close> answer 0, null
  and null; no access leaves the arrays. The second hypothesis is the shape of the slab
  table: it has a slot for each of the \<open>maxCount\<close> slabs, as the constructor builds it.
\<close>

theorem unmanaged_address_is_ignored:
  assumes "unmanaged d p"
    and "maxCount (slabAllocator d) \<le> int (length (slabs (slabAllocator d)))"
  shows "Director_deallocate d p = Inr d \<and>
         Director_allocationSize d p = Inr 0 \<and>
         Director_allocationBase d p = Inr 0 \<and>
         Director_allocationSideData d p = Inr 0"
proof -
  from assms(1) have q: "quantumAllocatorOf d p = None"
    by (simp add: unmanaged_def)
  note f = find_unmanaged [OF assms]
  show ?thesis
    by (simp add: q f Director_deallocate_def Director_allocationSize_def
        Director_allocationBase_def Director_allocationSideData_def SlabAllocator_deallocate_def
        SlabAllocator_allocationSize_def SlabAllocator_allocationBase_def
        SlabAllocator_allocationSideData_def ZERO_def)
qed

text \<open>The null pointer on the example instance.\<close>

theorem unmanaged_address_is_ignored_witness:
  "unmanaged example_director 0 \<and>
   maxCount (slabAllocator example_director) \<le>
     int (length (slabs (slabAllocator example_director))) \<and>
   Director_deallocate example_director 0 = Inr example_director \<and>
   Director_allocationSize example_director 0 = Inr 0 \<and>
   Director_allocationBase example_director 0 = Inr 0 \<and>
   Director_allocationSideData example_director 0 = Inr 0"
proof -
  have u: "unmanaged example_director 0"
    by code_simp
  have m: "maxCount (slabAllocator example_director) \<le>
      int (length (slabs (slabAllocator example_director)))"
    by code_simp
  from unmanaged_address_is_ignored [OF u m] u m show ?thesis
    by simp
qed

section \<open>Claims about statistics\<close>

lemma sum_from_Inr:
  assumes "sum_from xs i acc = Inr r" and "0 \<le> i" and "i \<le> 64"
  shows "r = acc + (\<Sum>k = nat i..<64. xs ! k) \<and> (i < 64 \<longrightarrow> 64 \<le> length xs)"
  using assms
proof (induction xs i acc rule: sum_from.induct)
  case (1 xs i acc)
  show ?case
  proof (cases "i < 64")
    case False
    with "1.prems" show ?thesis
      by (subst (asm) sum_from.simps) (simp add: QB_STATS_SIZE_def)
  next
    case True
    with "1.prems" have inb: "0 \<le> i \<and> i < int (length xs)"
      and rest: "sum_from xs (i + 1) (acc + xs ! nat i) = Inr r"
      by (subst (asm) sum_from.simps, simp add: QB_STATS_SIZE_def split: if_splits)+
    from True have lt: "i < QB_STATS_SIZE"
      by (simp add: QB_STATS_SIZE_def)
    from "1.IH" [OF lt inb rest] "1.prems" True have
      ih: "r = acc + xs ! nat i + (\<Sum>k = nat (i + 1)..<64. xs ! k)"
        and len: "i + 1 < 64 \<longrightarrow> 64 \<le> length xs"
      by auto
    from inb True have n: "nat (i + 1) = Suc (nat i)" "nat i < 64"
      by auto
    have "(\<Sum>k = nat i..<64. xs ! k) = xs ! nat i + (\<Sum>k = Suc (nat i)..<64. xs ! k)"
      using n(2) by (simp add: sum.atLeast_Suc_lessThan)
    with ih n have "r = acc + (\<Sum>k = nat i..<64. xs ! k)"
      by (simp add: add.assoc)
    moreover have "64 \<le> length xs"
    proof (cases "i + 1 < 64")
      case True
      with len show ?thesis by simp
    next
      case False
      with True inb show ?thesis by auto
    qed
    ultimately show ?thesis
      by simp
  qed
qed

text \<open>
  Claim C4, as the code has it. Whatever the state, slot 0 of the counts that \<open>stats\<close>
  returns is the sum (modulo \<open>2\<^sup>6\<^sup>4\<close>) of \<^emph>\<open>all\<close> the other slots, 1 to 63, and slot 1 counts
  the administrative data (the director itself).
\<close>

theorem stats_slot_0_sums_slots_1_to_63:
  assumes "Director_stats lay d = Inr (counts, sizes)"
  shows "counts ! 0 = (\<Sum>k = 1..<64. counts ! k)"
proof -
  from assms obtain c5 s5 cnt total where
    s: "sum_from c5 1 0 = Inr cnt" and c: "counts = c5[0 := cnt]"
    by (auto simp: Director_stats_def Let_def bindF_def split: sum.splits prod.splits)
  from sum_from_Inr [OF s] have cnt: "cnt = (\<Sum>k = 1..<64. c5 ! k)" and len: "64 \<le> length c5"
    by simp_all
  from len c have "counts ! 0 = cnt"
    by (cases c5) simp_all
  moreover have "(\<Sum>k = 1..<64. counts ! k) = (\<Sum>k = 1..<64. c5 ! k)"
    unfolding c by (rule sum.cong) simp_all
  ultimately show ?thesis
    using cnt by simp
qed

text \<open>
  The statistics of the example instance, on which nothing has been allocated: slot 1
  holds the director, so slot 0 is 1 while the slots 3 to 52 are all zero.
\<close>

definition fresh_counts :: "u64 list" where
  "fresh_counts = 1 # 1 # replicate 62 0"

definition fresh_sizes :: "u64 list" where
  "fresh_sizes = 64864 # 64864 # replicate 62 0"

theorem stats_slot_0_counts_the_director:
  "Director_stats example_layout example_director = Inr (fresh_counts, fresh_sizes) \<and>
   fresh_counts ! 0 = 1 \<and> (\<Sum>k = 3..<53. fresh_counts ! k) = 0"
proof -
  have "Director_stats example_layout example_director = Inr (fresh_counts, fresh_sizes)"
    by code_simp
  moreover have "fresh_counts ! 0 = 1"
    by (simp add: fresh_counts_def)
  moreover have "(\<Sum>k = 3..<53. fresh_counts ! k) = 0"
    by (rule sum.neutral) (auto simp: fresh_counts_def nth_Cons')
  ultimately show ?thesis
    by simp
qed

theorem stats_slot_0_sums_slots_1_to_63_witness:
  "Director_stats example_layout example_director = Inr (fresh_counts, fresh_sizes) \<and>
   fresh_counts ! 0 = (\<Sum>k = 1..<64. fresh_counts ! k)"
proof -
  have s: "Director_stats example_layout example_director = Inr (fresh_counts, fresh_sizes)"
    by code_simp
  from stats_slot_0_sums_slots_1_to_63 [OF s] s show ?thesis
    by simp
qed

section \<open>Claims about reallocation\<close>

lemma leading_zeros_mask:
  "k \<le> n \<Longrightarrow> n \<le> 64 \<Longrightarrow> leading_zeros n (mask k) = n - k"
proof (induction n)
  case 0
  then show ?case by simp
next
  case (Suc n)
  show ?case
  proof (cases "k = Suc n")
    case True
    with Suc.prems show ?thesis
      by (simp add: bit_mask_iff)
  next
    case False
    with Suc.prems have "k \<le> n"
      by simp
    with Suc show ?thesis
      by (simp add: bit_mask_iff Suc_diff_le)
  qed
qed

lemma clz_mask:
  assumes "k < 64"
  shows "clz (mask k) = 64 - int k"
proof (cases "k = 0")
  case True
  then show ?thesis
    by (simp add: clz_def BITS_PER_WORD_def)
next
  case False
  then have "(mask k :: u64) \<noteq> 0"
    using assms by (simp add: mask_eq_0_iff)
  with assms show ?thesis
    by (simp add: clz_def leading_zeros_mask)
qed

lemma roundUpPowerOf2_power:
  assumes "k < 64"
  shows "roundUpPowerOf2 (push_bit k 1) = push_bit k 1"
proof -
  have nz: "(push_bit k 1 :: u64) \<noteq> 0"
    using assms by (simp add: push_bit_of_1 exp_eq_zero_iff)
  have "(push_bit k 1 :: u64) - 1 = mask k"
    by (simp add: push_bit_of_1 mask_eq_exp_minus_1)
  with nz assms show ?thesis
    by (simp add: roundUpPowerOf2_def clz_mask BITS_PER_WORD_def)
qed

text \<open>
  Where \<open>reallocate\<close> keeps the block. \<open>reallocate(nullptr, s)\<close> is \<open>allocate(s)\<close>, result and
  state. \<open>reallocate(a, size(a))\<close> returns \<open>a\<close> and leaves the state alone when \<open>size(a)\<close> is
  zero or a power of two: the test compares the old size with the new size rounded up to
  a power of two.
\<close>

lemma reallocate_keeps_power_of_two_block:
  assumes "a \<noteq> 0"
    and "Director_allocationSize d a = Inr sz"
    and "sz = 0 \<or> (\<exists>k<64. sz = push_bit k 1)"
  shows "Director_reallocate fuel d 0 s = Director_allocate fuel d s \<and>
         Director_reallocate fuel d a sz = Inr (a, d)"
proof -
  have "roundUpPowerOf2 sz = sz"
  proof (cases "sz = 0")
    case True
    then show ?thesis
      by (simp add: roundUpPowerOf2_def ZERO_def)
  next
    case False
    with assms(3) obtain k where "k < 64" "sz = push_bit k 1"
      by blast
    then show ?thesis
      by (simp only: roundUpPowerOf2_power)
  qed
  with assms(1,2) show ?thesis
    by (simp add: Director_reallocate_def)
qed

text \<open>
  On the example instance, \<open>allocate_bulk(192M, 1, out, true)\<close> reserves one slab of
  192 MiB, a multiple of the slab alignment that is not a power of two. The trace returns
  the number of blocks, the block \<open>a\<close>, its allocation size and the result of
  \<open>reallocate(a, size(a))\<close>.
\<close>

definition bulk_slab_trace :: "fault + (int \<times> address \<times> u64 \<times> address)" where
  "bulk_slab_trace =
     bindF (Director_allocateBulk 2 example_director 201326592 1 [0] True) (\<lambda>(n, buf, d1).
     bindF (Director_allocationSize d1 (buf ! 0)) (\<lambda>s.
     bindF (Director_reallocate 2 d1 (buf ! 0) s) (\<lambda>(a', d2). Inr (n, buf ! 0, s, a'))))"

text \<open>
  Claim C5 (\<open>reallocate(a, size(a))\<close> returns \<open>a\<close> for every live block) fails on the code.
  The block of 192 MiB fits a request for 192 MiB, but \<open>reallocate\<close> compares its size
  with the request rounded up to a power of two, 256 MiB, and moves the block: the
  result is a new block at another address.
\<close>

theorem reallocate_same_size_moves_slab:
  "bulk_slab_trace = Inr (1, 0x7E0000000000, 201326592, 0x7D0000000000)"
  unfolding bulk_slab_trace_def by code_simp

section \<open>The instance after construction\<close>

text \<open>
  What the constructor of \<open>Director\<close> builds from three quantum allocators that serve the
  orders 3 to 10, 11 to 18 and 19 to 26: the roster is \<open>fresh_roster\<close>.
\<close>

definition fresh_director ::
  "address \<Rightarrow> u64 \<Rightarrow> bool \<Rightarrow> bool \<Rightarrow> QuantumAllocator list \<Rightarrow> SlabAllocator \<Rightarrow> string \<Rightarrow> System
     \<Rightarrow> Director" where
  "fresh_director b sz sh sec qas sa name sys =
     \<lparr>base = b, limit = b + sz, d_sharing = sh, d_secure = sec, roster = fresh_roster,
      quantumAllocators = qas, slabAllocator = sa, reference = 0, linkName = take 255 name,
      system = sys\<rparr>"

lemma Director_new_tiers:
  "Director_new b sz sh sec
     [QuantumAllocator_new sh0 3 10 p0 c0 b0 sd0 s0,
      QuantumAllocator_new sh1 11 18 p1 c1 b1 sd1 s1,
      QuantumAllocator_new sh2 19 26 p2 c2 b2 sd2 s2] sa name sys =
   Inr (fresh_director b sz sh sec
     [QuantumAllocator_new sh0 3 10 p0 c0 b0 sd0 s0,
      QuantumAllocator_new sh1 11 18 p1 c1 b1 sd1 s1,
      QuantumAllocator_new sh2 19 26 p2 c2 b2 sd2 s2] sa name sys)"
proof -
  define R1 where "R1 = replicate 3 NullAllocator_ptr @ replicate 61 Null_ptr"
  define R2 where
    "R2 = NullAllocator_ptr # replicate 3 (QuantumAllocator_ptr 0) @ replicate 60 Null_ptr"
  define R3 where
    "R3 = NullAllocator_ptr # replicate 10 (QuantumAllocator_ptr 0) @ replicate 53 Null_ptr"
  define R4 where
    "R4 = NullAllocator_ptr # replicate 10 (QuantumAllocator_ptr 0) @
       replicate 8 (QuantumAllocator_ptr 1) @ replicate 45 Null_ptr"
  define R5 where
    "R5 = NullAllocator_ptr # replicate 10 (QuantumAllocator_ptr 0) @
       replicate 8 (QuantumAllocator_ptr 1) @ replicate 8 (QuantumAllocator_ptr 2) @
       replicate 37 Null_ptr"
  define R6 where
    "R6 = NullAllocator_ptr # replicate 10 (QuantumAllocator_ptr 0) @
       replicate 8 (QuantumAllocator_ptr 1) @ replicate 8 (QuantumAllocator_ptr 2) @
       replicate 21 SlabAllocator_ptr @ replicate 16 Null_ptr"
  have r1: "setAllocators (replicate 64 Null_ptr) NullAllocator_ptr 0 3 = Inr R1"
    unfolding R1_def by code_simp
  have r2: "setAllocators R1 (QuantumAllocator_ptr 0) 1 4 = Inr R2"
    unfolding R1_def R2_def by code_simp
  have r3: "setAllocators R2 (QuantumAllocator_ptr 0) 3 11 = Inr R3"
    unfolding R2_def R3_def by code_simp
  have r4: "setAllocators R3 (QuantumAllocator_ptr (Suc 0)) 11 19 = Inr R4"
    unfolding R3_def R4_def by code_simp
  have r5: "setAllocators R4 (QuantumAllocator_ptr 2) 19 27 = Inr R5"
    unfolding R4_def R5_def by code_simp
  have r6: "setAllocators R5 SlabAllocator_ptr 27 48 = Inr R6"
    unfolding R5_def R6_def by code_simp
  have r7: "setAllocators R6 NullAllocator_ptr 48 64 = Inr fresh_roster"
    unfolding R6_def by code_simp
  show ?thesis
    by (simp add: Director_new_def Director_fill_roster_def fresh_director_def qa_at_def
        QuantumAllocator_new_def qba_consts r1 r2 r3 r4 r5 r6 r7)
qed


lemma quantumAllocators_new_tiers:
  "\<exists>s0 s1 s2.
     fst (quantumAllocators_new (nat MAX_QUANTUM_ALLOCATORS) 0 lay sh counts bases sdSize
            SMALLEST_SIZE_ORDER (SMALLEST_SIZE_ORDER + MAX_QUANTUM_ALLOCATOR_ORDERS - 1) arena) =
       [QuantumAllocator_new sh 3 10 17 (counts ! 0) (bases ! 0) sdSize s0,
        QuantumAllocator_new sh 11 18 25 (counts ! 1) (bases ! 1) sdSize s1,
        QuantumAllocator_new sh 19 26 33 (counts ! 2) (bases ! 2) sdSize s2]"
proof -
  have t: "tierPartitionSizeOrder 3 = 17" "tierPartitionSizeOrder 11 = 25"
    "tierPartitionSizeOrder 19 = 33"
    by code_simp+
  have n: "nat MAX_QUANTUM_ALLOCATORS = Suc (Suc (Suc 0))"
    by (simp add: MAX_QUANTUM_ALLOCATORS_def)
  show ?thesis
    unfolding n
    apply (simp add: Let_def split_beta MAX_QUANTUM_ALLOCATOR_ORDERS_def SMALLEST_SIZE_ORDER_def t
        numeral_2_eq_2)
    apply (intro conjI exI)
      apply (rule refl)+
    done
qed


lemma createDirector_creates:
  assumes "createDirector lay sys arena True sh sec counts maxSlab sdSize name =
             Inr (arena', Some d)"
  shows "\<exists>b sz b0 b1 b2 s0 s1 s2 ssd sys'.
     d = fresh_director b sz sh sec
           [QuantumAllocator_new sh 3 10 17 (counts ! 0) b0 sdSize s0,
            QuantumAllocator_new sh 11 18 25 (counts ! 1) b1 sdSize s1,
            QuantumAllocator_new sh 19 26 33 (counts ! 2) b2 sdSize s2]
           (SlabAllocator_new sec maxSlab sdSize ssd) name sys'"
proof -
  let ?R = "regions (nat MAX_QUANTUM_ALLOCATORS) counts
              (LARGEST_SIZE_ORDER - MAX_QUANTUM_ALLOCATOR_ORDERS + 1) arena
              (replicate (nat MAX_QUANTUM_ALLOCATORS) 0)"
  obtain bases arena1 where e1: "?R = (bases, arena1)"
    by (cases ?R)
  obtain rest arena2 where e2: "Arena_allocate arena1 0 = (rest, arena2)"
    by (cases "Arena_allocate arena1 0")
  obtain ros arena3 where
    e3: "Arena_allocate arena2 (sizeof_AllocatorRoster lay) = (ros, arena3)"
    by (cases "Arena_allocate arena2 (sizeof_AllocatorRoster lay)")
  let ?P = "Arena_allocate arena3 (word_of_int MAX_QUANTUM_ALLOCATORS * sizeof_pointer lay)"
  obtain qaPtrs arena4 where e4: "?P = (qaPtrs, arena4)"
    by (cases ?P)
  let ?Q = "quantumAllocators_new (nat MAX_QUANTUM_ALLOCATORS) 0 lay sh counts bases sdSize
              SMALLEST_SIZE_ORDER (SMALLEST_SIZE_ORDER + MAX_QUANTUM_ALLOCATOR_ORDERS - 1) arena4"
  obtain qas arena5 where e5: "?Q = (qas, arena5)"
    by (cases ?Q)
  let ?S = "Arena_allocate arena5 (word_of_int maxSlab * sizeof_Slab lay)"
  obtain slabMem arena6 where e6: "?S = (slabMem, arena6)"
    by (cases ?S)
  let ?T = "Arena_allocate arena6 (word_of_int maxSlab * word_of_int sdSize)"
  obtain ssd arena7 where e7: "?T = (ssd, arena7)"
    by (cases ?T)
  obtain saMem arena8 where
    e8: "Arena_allocate arena7 (sizeof_SlabAllocator lay) = (saMem, arena8)"
    by (cases "Arena_allocate arena7 (sizeof_SlabAllocator lay)")
  obtain dMem arena9 where
    e9: "Arena_allocate arena8 (sizeof_Director lay) = (dMem, arena9)"
    by (cases "Arena_allocate arena8 (sizeof_Director lay)")
  from quantumAllocators_new_tiers [of lay sh counts bases sdSize arena4] e5
  obtain s0 s1 s2 where
    qas: "qas = [QuantumAllocator_new sh 3 10 17 (counts ! 0) (bases ! 0) sdSize s0,
                 QuantumAllocator_new sh 11 18 25 (counts ! 1) (bases ! 1) sdSize s1,
                 QuantumAllocator_new sh 19 26 33 (counts ! 2) (bases ! 2) sdSize s2]"
    by auto
  define sys1 where
    "sys1 = (if \<not> sh then commit sys rest (Space_size arena1 - Arena_allocated arena1) else sys)"
  from assms have
    "Director_new (base arena9) (Space_size arena9) sh sec qas
       (SlabAllocator_new sec maxSlab sdSize ssd) name sys1 = Inr d"
    unfolding createDirector_def sys1_def
    by (auto simp: e1 e2 e3 e4 e5 e6 e7 e8 e9 bindF_def split: sum.splits)
  then show ?thesis
    unfolding qas Director_new_tiers by blast
qed


lemma Director_create_creates:
  assumes "Director_create lay sys address sec c0 c1 c2 maxSlab sdSize = Inr (Some d)"
  shows "\<exists>b sz b0 b1 b2 s0 s1 s2 ssd sys'.
     d = fresh_director b sz False sec
           [QuantumAllocator_new False 3 10 17 c0 b0 sdSize s0,
            QuantumAllocator_new False 11 18 25 c1 b1 sdSize s1,
            QuantumAllocator_new False 19 26 33 c2 b2 sdSize s2]
           (SlabAllocator_new sec maxSlab sdSize ssd) [] sys'"
proof -
  from assms obtain sys1 arena arena' where
    "createDirector lay sys1 arena True False sec [c0, c1, c2] maxSlab sdSize [] =
       Inr (arena', Some d)"
    by (auto simp: Director_create_def Let_def bindF_def split: sum.splits prod.splits if_splits)
  from createDirector_creates [OF this] show ?thesis
    by simp
qed

subsection \<open>The roster entries below the smallest order\<close>

lemma leading_zeros_le:
  "bit w k \<Longrightarrow> k < n \<Longrightarrow> leading_zeros n w \<le> n - 1 - k"
proof (induction n)
  case 0
  then show ?case by simp
next
  case (Suc n)
  show ?case
  proof (cases "bit w n")
    case True
    then show ?thesis by simp
  next
    case False
    with Suc.prems have "k < n"
      by (cases "k = n") auto
    with Suc False show ?thesis
      by auto
  qed
qed

lemma high_bit:
  fixes v :: u64
  assumes "8 \<le> v"
  shows "\<exists>k. 3 \<le> k \<and> k < 64 \<and> bit v k"
proof (rule ccontr)
  assume "\<not> ?thesis"
  then have low: "\<And>k. bit v k \<Longrightarrow> k < 3"
    using bit_imp_le_length [of v] by (fastforce simp: not_le)
  have "take_bit 3 v = v"
    by (rule bit_eqI) (auto simp: bit_take_bit_iff dest: low)
  then have "unat v = take_bit 3 (unat v)"
    by (metis unsigned_take_bit_eq)
  also have "\<dots> < 2 ^ 3"
    by (rule take_bit_nat_less_exp)
  finally have "unat v < 8"
    by simp
  with assms show False
    by (simp add: word_le_nat_alt)
qed

lemma sizeToOrder_ge_3: "3 \<le> sizeToOrder sz"
proof (cases "8 < sz")
  case False
  then show ?thesis
    by (simp add: sizeToOrder_def)
next
  case True
  then have "8 \<le> sz - 1"
    by (simp add: word_le_nat_alt word_less_nat_alt unat_sub_if')
  from high_bit [OF this] obtain k where k: "3 \<le> k" "k < 64" "bit (sz - 1) k"
    by blast
  then have nz: "sz - 1 \<noteq> 0"
    by auto
  from leading_zeros_le [OF k(3) k(2)] k(1) have "leading_zeros 64 (sz - 1) \<le> 60"
    by simp
  with True nz show ?thesis
    by (simp add: sizeToOrder_def clz_def BITS_PER_WORD_def)
qed


lemma fresh_roster_low:
  "fresh_roster ! 0 = NullAllocator_ptr"
  "fresh_roster ! Suc 0 = QuantumAllocator_ptr 0"
  "fresh_roster ! 2 = QuantumAllocator_ptr 0"
  by code_simp+

text \<open>
  Claim C3, as the code has it. The constructor first gives the orders 0 to 2 to the null
  allocator and then the orders 1 to 3 to the first quantum allocator, so after
  construction only the entry of order 0 is the null allocator; the entries of the orders
  1 and 2 are the small tier's quantum allocator. No request is dispatched through these
  entries: \<open>sizeToOrder\<close> is never below 3.
\<close>

theorem fresh_roster_below_smallest_order:
  assumes "Director_create lay sys address sec c0 c1 c2 maxSlab sdSize = Inr (Some d)"
  shows "roster d ! 0 = NullAllocator_ptr \<and>
         roster d ! 1 = QuantumAllocator_ptr 0 \<and>
         roster d ! 2 = QuantumAllocator_ptr 0 \<and>
         3 \<le> sizeToOrder s"
proof -
  from Director_create_creates [OF assms] have "roster d = fresh_roster"
    by (auto simp: fresh_director_def)
  then show ?thesis
    by (simp add: fresh_roster_low sizeToOrder_ge_3)
qed

theorem fresh_roster_below_smallest_order_witness:
  "Director_create example_layout example_system 0 False 1 1 1 2 0 = Inr (Some example_director) \<and>
   roster example_director ! 0 = NullAllocator_ptr \<and>
   roster example_director ! 1 = QuantumAllocator_ptr 0 \<and>
   roster example_director ! 2 = QuantumAllocator_ptr 0 \<and>
   3 \<le> sizeToOrder 1"
  using fresh_roster_below_smallest_order [OF Director_create_example, of 1]
    Director_create_example
  by simp

text \<open>On the example instance the entries of the orders 1 and 2 are not the null allocator.\<close>

theorem fresh_roster_order_1_is_quantum_allocator:
  "Director_create example_layout example_system 0 False 1 1 1 2 0 = Inr (Some example_director) \<and>
   roster example_director ! 1 = QuantumAllocator_ptr 0 \<and>
   roster example_director ! 2 = QuantumAllocator_ptr 0 \<and>
   QuantumAllocator_ptr 0 \<noteq> NullAllocator_ptr"
proof -
  have "roster example_director = fresh_roster"
    by (simp add: example_director_def)
  with Director_create_example show ?thesis
    by (simp add: fresh_roster_low)
qed

section \<open>The first partition of a tier\<close>

text \<open>
  On a quantum allocator that has handed out nothing, the partition iterator finds no
  partition of the order asked for, claims partition 0 in the partition registry, builds
  it for that order and puts it online. The partition count \<open>c\<close> is at least 1 and at most
  16384, the number of bits a registry holds.
\<close>

lemma orderDiv_small:
  assumes "0 \<le> k" "k < 2 ^ 31"
  shows "sint (ucast (drop_bit 6 (word_of_int k :: 64 word)) :: 32 word) = k div 64"
proof -
  have k64: "k < 2 ^ 64"
    using assms(2) by (rule less_trans) simp
  have u: "uint (word_of_int k :: 64 word) = k"
    using assms(1) k64 by (simp add: uint_word_of_int_eq take_bit_int_eq_self)
  have d: "uint (drop_bit 6 (word_of_int k :: 64 word)) = k div 64"
    by (simp add: drop_bit_eq_div uint_div u)
  have q: "0 \<le> k div 64" "k div 64 < 2 ^ 31" "k div 64 < 2 ^ 32"
    using assms by simp_all
  have c: "uint (ucast (drop_bit 6 (word_of_int k :: 64 word)) :: 32 word) = k div 64"
    using q by (simp only: unsigned_ucast_eq d) (simp add: take_bit_int_eq_self)
  show ?thesis
    using q by (simp only: sint_uint c) (simp add: signed_take_bit_int_eq_self)
qed

lemma wordsNeeded_eq:
  assumes "0 \<le> n" "n \<le> 16384"
  shows "wordsNeeded n = (n + 63) div 64"
proof -
  have e: "word_of_int (n + BITS_PER_WORD) - 1 = (word_of_int (n + 63) :: 64 word)"
    by (simp add: BITS_PER_WORD_def)
  have "0 \<le> n + 63" "n + 63 < 2 ^ 31"
    using assms by simp_all
  from orderDiv_small [OF this] show ?thesis
    unfolding wordsNeeded_def orderDiv_def BITS_PER_WORD_ORDER_def e by simp
qed

lemma wordsNeeded_bounds:
  assumes "1 \<le> n" "n \<le> 16384"
  shows "1 \<le> wordsNeeded n" "wordsNeeded n \<le> 256"
  using assms by (simp_all add: wordsNeeded_eq)


lemma nextSet_loop_empty:
  assumes "list_all (\<lambda>v. v = 0) (bits r)"
    and "maximumWordIndex r \<le> int (length (bits r))"
    and "0 \<le> w"
  shows "nextSet_loop r w b = Inr NOT_FOUND"
  using assms
proof (induction r w b rule: nextSet_loop.induct)
  case (1 r w b)
  show ?case
  proof (cases "w < maximumWordIndex r")
    case False
    then show ?thesis
      by (subst nextSet_loop.simps) simp
  next
    case True
    with "1.prems" have i: "0 \<le> w" "w < int (length (bits r))"
      by auto
    with "1.prems"(1) have z: "bits r ! nat w = 0"
      by (simp add: list_all_length)
    with i have g: "getBits r w = Inr 0"
      by (simp add: getBits_def)
    have "nextSet_loop r (w + 1) 0 = Inr NOT_FOUND"
      using "1.IH" [OF True g refl _ "1.prems"(1,2)] i by simp
    with True g show ?thesis
      by (subst nextSet_loop.simps) simp
  qed
qed

lemma nextSet_fresh:
  assumes "1 \<le> c" "c \<le> 16384"
  shows "nextSet (Registry_new c) 0 = Inr (NOT_FOUND, c)"
proof -
  have "nextSet_loop (Registry_new c) 0 0 = Inr NOT_FOUND"
    using wordsNeeded_bounds [OF assms]
    by (intro nextSet_loop_empty) (simp_all add: Registry_new_def qba_consts list_all_length)
  then show ?thesis
    by (simp add: nextSet_def getWordIndex_def getBitIndex_def NOT_FOUND_def Registry_new_def)
qed

lemma findFree_fresh:
  assumes "1 \<le> c" "c \<le> 16384"
  shows "findFree (Registry_new c) =
     Inr (0, (Registry_new c)\<lparr>bits := (bits (Registry_new c))[0 := 1]\<rparr>)"
  using assms wordsNeeded_bounds(1) [OF assms]
  apply (simp add: findFree_def Registry_new_def)
  apply (subst findFree_loop.simps)
  apply (simp add: getBits_def swapBits_def qba_consts getIndex_def Let_def ctz_minus_1)
  done

lemma set_bit_at_fresh:
  "set_bit_at (Registry_new c) 0 =
     Inr (True, (Registry_new c)\<lparr>bits := (bits (Registry_new c))[0 := 1]\<rparr>)"
  by (simp add: set_bit_at_def Registry_new_def setMask_def orBits_def getWordIndex_def
      getBitIndex_def twoToOrder_def qba_consts)


text \<open>A registry whose only set bit is bit 0.\<close>

definition Registry_first :: "int \<Rightarrow> Registry" where
  "Registry_first c = (Registry_new c)\<lparr>bits := (bits (Registry_new c))[0 := 1]\<rparr>"

lemma getFreePartition_fresh:
  assumes a: "quantumAllocators d ! q = QuantumAllocator_new False smallest largest pso c b sd s"
    and q: "q < length (quantumAllocators d)"
    and c: "1 \<le> c" "c \<le> 16384"
    and oi: "0 \<le> oi" "oi < 8"
    and ros: "0 \<le> smallest + oi" "smallest + oi < int (length (roster d))"
  shows "getFreePartition d q oi =
     Inr (Some 0,
       d\<lparr>roster := (roster d)[nat (smallest + oi) := Partition_ptr q 0],
         quantumAllocators := (quantumAllocators d)
           [q := (QuantumAllocator_new False smallest largest pso c b sd s)
              \<lparr>partitions := (replicate (nat c) Partition_zero)
                 [0 := Partition_new False q b (orderToSize pso) (orderToSize (oi + smallest))
                         sd s],
               partitionRegistry := Registry_first c,
               orderRegistry := (replicate 8 (Registry_new c))[nat oi := Registry_first c]\<rparr>],
         system := commit (system d) b (orderToSize pso)\<rparr>)"
  using q c oi ros
  by (simp add: getFreePartition_def newOrderPartition_def allocatePartition_def
      newPartition_def addToOrder_def onlinePartition_def qa_at_def qa_update_def a
      putPartition_def getOrderRegistry_def putOrderRegistry_def setAllocator_def
      partitionBase_def orderMul_def findFree_fresh set_bit_at_fresh NOT_FOUND_def Let_def
      QuantumAllocator_new_def Registry_first_def MAX_QUANTUM_ALLOCATOR_ORDERS_def
      MAX_PARTITION_QUANTUM_def)


lemma PartitionIterator_next_fresh:
  assumes a: "quantumAllocators d ! q = QuantumAllocator_new False smallest largest pso c b sd s"
    and q: "q < length (quantumAllocators d)"
    and c: "1 \<le> c" "c \<le> 16384"
    and oi: "0 \<le> oi" "oi < 8"
    and ros: "0 \<le> smallest + oi" "smallest + oi < int (length (roster d))"
  shows "PartitionIterator_next d q
           \<lparr>it_orderIndex = oi, it_index = 0, allocateNew = True, continuous = cont\<rparr> =
     Inr (Some 0,
       \<lparr>it_orderIndex = oi, it_index = c, allocateNew = cont, continuous = cont\<rparr>,
       d\<lparr>roster := (roster d)[nat (smallest + oi) := Partition_ptr q 0],
         quantumAllocators := (quantumAllocators d)
           [q := (QuantumAllocator_new False smallest largest pso c b sd s)
              \<lparr>partitions := (replicate (nat c) Partition_zero)
                 [0 := Partition_new False q b (orderToSize pso) (orderToSize (oi + smallest))
                         sd s],
               partitionRegistry := Registry_first c,
               orderRegistry := (replicate 8 (Registry_new c))[nat oi := Registry_first c]\<rparr>],
         system := commit (system d) b (orderToSize pso)\<rparr>)"
proof -
  have g: "getOrderRegistry (qa_at d q) oi = Inr (Registry_new c)"
    using oi by (simp add: getOrderRegistry_def qa_at_def a QuantumAllocator_new_def
        MAX_QUANTUM_ALLOCATOR_ORDERS_def)
  show ?thesis
    by (cases cont)
      (simp_all add: PartitionIterator_next_def g nextSet_fresh [OF c] NOT_FOUND_def Let_def
        getFreePartition_fresh [OF a q c oi ros])
qed


lemma fresh_roster_shape:
  "length fresh_roster = 64"
  "fresh_roster ! 3 = QuantumAllocator_ptr 0"
  "fresh_roster ! 12 = QuantumAllocator_ptr 1"
  by code_simp+

lemma order_of_zero:
  "sizeToOrder 0 = 3" "roundUpPowerOf2 0 = 0" "sizeToOrder 8 = 3" "roundUpPowerOf2 8 = 8"
  by code_simp+

lemma Partition_allocate_fresh:
  assumes "orderDiv partSize (sizeToOrder quantSize) = n" "1 \<le> n" "n \<le> 16384"
  shows "Partition_allocate (Partition_new sh q b partSize quantSize sd s) sz =
     Inr (b, (Partition_new sh q b partSize quantSize sd s)\<lparr>registry := Registry_first n\<rparr>)"
  using assms
  by (simp add: Partition_allocate_def Partition_new_def findFree_fresh NOT_FOUND_def
      orderMul_def Registry_first_def)

section \<open>Claims about a fresh instance\<close>

subsection \<open>A request for zero bytes\<close>

text \<open>
  The state after the first block of the small tier has been handed out: partition 0 is
  cut into 8-byte quanta and registered for order 3, and its first quantum is in use.
\<close>

definition first_small_block :: "Director \<Rightarrow> Director" where
  "first_small_block d =
     (let a = qa_at d 0 in
      d\<lparr>roster := (roster d)[3 := Partition_ptr 0 0],
        quantumAllocators := (quantumAllocators d)
          [0 := a\<lparr>partitions := (partitions a)
                   [0 := (Partition_new False 0 (base a) (partitionSize a) 8
                            (qa_sideDataSize a) (sideData a))
                         \<lparr>registry := Registry_first 16384\<rparr>],
                 partitionRegistry := Registry_first (partitionCount a),
                 orderRegistry := (orderRegistry a)[0 := Registry_first (partitionCount a)]\<rparr>],
        system := commit (system d) (base a) (partitionSize a)\<rparr>)"

lemma Director_allocate_first_block:
  assumes a: "quantumAllocators d ! 0 = QuantumAllocator_new False 3 10 17 c b sd s"
    and q: "0 < length (quantumAllocators d)"
    and r: "roster d = fresh_roster"
    and c: "1 \<le> c" "c \<le> 16384"
    and b: "b \<noteq> 0"
    and sz: "sz = 0 \<or> sz = 8"
  shows "Director_allocate (Suc fuel) d sz = Inr (b, first_small_block d)"
proof -
  have o: "sizeToOrder sz = 3" "roundUpPowerOf2 sz = sz"
    using sz by (auto simp: order_of_zero)
  have n: "orderDiv (orderToSize 17) (sizeToOrder 8) = 16384"
    by code_simp
  have e: "orderToSize 3 = 8"
    by code_simp
  note nx = PartitionIterator_next_fresh [OF a q c, of 0, simplified r fresh_roster_shape, simplified]
  note pa = Partition_allocate_fresh [OF n, simplified]
  show ?thesis
    using q c b
    by (simp add: Director_allocate_def findAllocatorBySize_def getAllocator_def r
        fresh_roster_shape o allocator_ID_def qa_at_def a dispatch_allocate_def
        QuantumAllocator_allocate_def PartitionIterator_new_def getOrderIndex_def nx pa
        getPartition_def putPartition_def qa_update_def first_small_block_def e
        QuantumAllocator_new_def QuantumAllocatorID_def PartitionID_def SlabAllocatorID_def
        MAX_QUANTUM_ALLOCATOR_ORDERS_def)
qed


lemma allocationSize_first_block:
  assumes a: "quantumAllocators d ! 0 = QuantumAllocator_new False 3 10 17 c b sd s"
    and q: "0 < length (quantumAllocators d)"
    and c: "1 \<le> c"
    and nowrap: "b < b + orderToSize 17 * word_of_int c"
  shows "Director_allocationSize (first_small_block d) b = Inr 8"
proof -
  have e: "orderToSize (sizeToOrder 8) = 8"
    by code_simp
  show ?thesis
    using q c nowrap
    by (simp add: Director_allocationSize_def quantumAllocatorOf_def inSpace_def qa_at_def
        first_small_block_def a QuantumAllocator_new_def QuantumAllocator_allocationSize_def
        partitionFromAddress_def Address_getIndex_def orderDiv_def getPartition_def
        Partition_allocationSize_def quantumSize_def Partition_new_def e Let_def)
qed

text \<open>
  Claim C10. \<open>sizeToOrder(0)\<close> is 3 and \<open>roundUpPowerOf2(0)\<close> is 0, so on an instance that
  \<open>create\<close> has just built with at least one partition in the small tier, \<open>allocate(0)\<close>
  does what \<open>allocate(8)\<close> does: it returns the base of the small tier, and the allocation
  size of that block is 8. The partition count is within the capacity of a registry; the
  last two hypotheses say that the small tier's region does not start at address 0 and
  does not wrap around the end of the address space.
\<close>

theorem allocate_zero_on_fresh_instance:
  assumes "Director_create lay sys address sec c0 c1 c2 maxSlab sdSize = Inr (Some d)"
    and "1 \<le> c0" "c0 \<le> 16384"
    and "base (qa_at d 0) \<noteq> 0"
    and "base (qa_at d 0) < limit (qa_at d 0)"
  shows "sizeToOrder 0 = 3 \<and> roundUpPowerOf2 0 = 0 \<and>
         Director_allocate (Suc fuel) d 0 = Director_allocate (Suc fuel) d 8 \<and>
         (\<exists>d'. Director_allocate (Suc fuel) d 0 = Inr (base (qa_at d 0), d') \<and>
               Director_allocationSize d' (base (qa_at d 0)) = Inr 8)"
proof -
  from Director_create_creates [OF assms(1)] obtain b sz b0 b1 b2 s0 s1 s2 ssd sys' where
    d: "d = fresh_director b sz False sec
              [QuantumAllocator_new False 3 10 17 c0 b0 sdSize s0,
               QuantumAllocator_new False 11 18 25 c1 b1 sdSize s1,
               QuantumAllocator_new False 19 26 33 c2 b2 sdSize s2]
              (SlabAllocator_new sec maxSlab sdSize ssd) [] sys'"
    by blast
  have a: "quantumAllocators d ! 0 = QuantumAllocator_new False 3 10 17 c0 b0 sdSize s0"
    and q: "0 < length (quantumAllocators d)"
    and r: "roster d = fresh_roster"
    by (simp_all add: d fresh_director_def)
  have b0: "base (qa_at d 0) = b0"
    and l0: "limit (qa_at d 0) = b0 + orderToSize 17 * word_of_int c0"
    by (simp_all add: qa_at_def a QuantumAllocator_new_def)
  from assms(4) have nz: "b0 \<noteq> 0"
    by (simp add: b0)
  from assms(5) have nowrap: "b0 < b0 + orderToSize 17 * word_of_int c0"
    by (simp add: b0 l0)
  note al = Director_allocate_first_block [OF a q r assms(2,3) nz]
  have "Director_allocate (Suc fuel) d 0 = Inr (b0, first_small_block d)"
    by (rule al) simp
  moreover have "Director_allocate (Suc fuel) d 8 = Inr (b0, first_small_block d)"
    by (rule al) simp
  moreover note allocationSize_first_block [OF a q assms(2) nowrap]
  ultimately show ?thesis
    by (simp add: b0 order_of_zero)
qed

theorem allocate_zero_on_fresh_instance_witness:
  "Director_create example_layout example_system 0 False 1 1 1 2 0 = Inr (Some example_director) \<and>
   base (qa_at example_director 0) \<noteq> 0 \<and>
   base (qa_at example_director 0) < limit (qa_at example_director 0) \<and>
   sizeToOrder 0 = 3 \<and> roundUpPowerOf2 0 = 0 \<and>
   Director_allocate (Suc 0) example_director 0 = Director_allocate (Suc 0) example_director 8 \<and>
   (\<exists>d'. Director_allocate (Suc 0) example_director 0 = Inr (0x7F0202000000, d') \<and>
         Director_allocationSize d' 0x7F0202000000 = Inr 8)"
proof -
  have b: "base (qa_at example_director 0) = 0x7F0202000000"
    by code_simp
  have nz: "base (qa_at example_director 0) \<noteq> 0"
    by code_simp
  have nowrap: "base (qa_at example_director 0) < limit (qa_at example_director 0)"
    by code_simp
  have "sizeToOrder 0 = 3 \<and> roundUpPowerOf2 0 = 0 \<and>
      Director_allocate (Suc 0) example_director 0 =
        Director_allocate (Suc 0) example_director 8 \<and>
      (\<exists>d'. Director_allocate (Suc 0) example_director 0 =
               Inr (base (qa_at example_director 0), d') \<and>
             Director_allocationSize d' (base (qa_at example_director 0)) = Inr 8)"
    by (rule allocate_zero_on_fresh_instance [OF Director_create_example _ _ nz nowrap])
      simp_all
  from this [unfolded b] Director_create_example nz nowrap show ?thesis
    by blast
qed

subsection \<open>Eight contiguous blocks of 4096 bytes\<close>

lemma findFreeRange_fresh_8:
  "findFreeRange (Registry_new 8192) 8 =
     Inr (0, (Registry_new 8192)\<lparr>bits := (bits (Registry_new 8192))[0 := 255]\<rparr>)"
  by code_simp

lemma medium_quantum:
  "orderToSize 12 = 4096" "sizeToOrder 4096 = 12"
  "orderDiv (orderToSize 25) 12 = 8192"
  by code_simp+

lemma allocateBulkContiguous_fresh:
  assumes "8 \<le> length buf"
  shows "allocateBulkContiguous (Partition_new False q b (orderToSize 25) 4096 sd s) 8 buf 0 =
     Inr (8,
       buf[0 := b, 1 := b + 4096, 2 := b + 8192, 3 := b + 12288, 4 := b + 16384,
           5 := b + 20480, 6 := b + 24576, 7 := b + 28672],
       (Partition_new False q b (orderToSize 25) 4096 sd s)
         \<lparr>registry := (Registry_new 8192)\<lparr>bits := (bits (Registry_new 8192))[0 := 255]\<rparr>\<rparr>)"
  using assms
  by (auto simp: allocateBulkContiguous_def Partition_new_def medium_quantum
      findFreeRange_fresh_8 NOT_FOUND_def synthesize.simps put_def orderMul_def)


lemma Director_allocateBulk_first_blocks:
  assumes a0: "largestSizeOrder (quantumAllocators d ! 0) = 10"
    and a: "quantumAllocators d ! Suc 0 = QuantumAllocator_new False 11 18 25 c b sd s"
    and q: "Suc 0 < length (quantumAllocators d)"
    and r: "roster d = fresh_roster"
    and c: "1 \<le> c" "c \<le> 16384"
    and buf: "8 \<le> length buf"
  shows "\<exists>d'. Director_allocateBulk (Suc (Suc fuel)) d 4096 8 buf True =
     Inr (8,
       buf[0 := b, 1 := b + 4096, 2 := b + 8192, 3 := b + 12288, 4 := b + 16384,
           5 := b + 20480, 6 := b + 24576, 7 := b + 28672],
       d')"
proof -
  note nx = PartitionIterator_next_fresh [OF a q c, of 1 False,
      simplified r fresh_roster_shape, simplified]
  note bc = allocateBulkContiguous_fresh [OF buf]
  show ?thesis
    using q c
    by (simp add: Director_allocateBulk_def medium_quantum qa_at_def a0 a
        QuantumAllocator_allocateBulk_def PartitionIterator_new_def getOrderIndex_def nx bc
        getPartition_def putPartition_def qa_update_def QuantumAllocator_new_def Let_def)
qed


text \<open>
  Claim C2. On an instance that \<open>create\<close> has just built with at least one partition in
  the medium tier (and no more than a registry can hold), \<open>allocate_bulk(4096, 8, out, true)\<close>
  returns 8 and fills the first eight entries of the buffer with consecutive addresses,
  4096 bytes apart, starting at the base of the medium tier. Two rounds of the loop over
  the partitions are enough.
\<close>

theorem allocate_bulk_contiguous_on_fresh_instance:
  assumes "Director_create lay sys address sec c0 c1 c2 maxSlab sdSize = Inr (Some d)"
    and "1 \<le> c1" "c1 \<le> 16384"
    and "8 \<le> length buf"
  shows "\<exists>buf' d'.
     Director_allocateBulk (Suc (Suc fuel)) d 4096 8 buf True = Inr (8, buf', d') \<and>
     buf' ! 0 = base (qa_at d 1) \<and>
     map (\<lambda>i. buf' ! Suc i - buf' ! i) [0..<7] = [4096, 4096, 4096, 4096, 4096, 4096, 4096]"
proof -
  from Director_create_creates [OF assms(1)] obtain b sz b0 b1 b2 s0 s1 s2 ssd sys' where
    d: "d = fresh_director b sz False sec
              [QuantumAllocator_new False 3 10 17 c0 b0 sdSize s0,
               QuantumAllocator_new False 11 18 25 c1 b1 sdSize s1,
               QuantumAllocator_new False 19 26 33 c2 b2 sdSize s2]
              (SlabAllocator_new sec maxSlab sdSize ssd) [] sys'"
    by blast
  have a0: "largestSizeOrder (quantumAllocators d ! 0) = 10"
    and a: "quantumAllocators d ! Suc 0 = QuantumAllocator_new False 11 18 25 c1 b1 sdSize s1"
    and q: "Suc 0 < length (quantumAllocators d)"
    and r: "roster d = fresh_roster"
    by (simp_all add: d fresh_director_def QuantumAllocator_new_def)
  have b1: "base (qa_at d 1) = b1"
    by (simp add: qa_at_def a QuantumAllocator_new_def)
  define buf' where
    "buf' = buf[0 := b1, 1 := b1 + 4096, 2 := b1 + 8192, 3 := b1 + 12288, 4 := b1 + 16384,
                5 := b1 + 20480, 6 := b1 + 24576, 7 := b1 + 28672]"
  from Director_allocateBulk_first_blocks [OF a0 a q r assms(2,3,4), of fuel] obtain d' where
    run: "Director_allocateBulk (Suc (Suc fuel)) d 4096 8 buf True = Inr (8, buf', d')"
    unfolding buf'_def by blast
  from assms(4) have len: "0 < length buf"
    by auto
  have nth: "buf' ! 0 = b1" "buf' ! 1 = b1 + 4096" "buf' ! 2 = b1 + 8192"
    "buf' ! 3 = b1 + 12288" "buf' ! 4 = b1 + 16384" "buf' ! 5 = b1 + 20480"
    "buf' ! 6 = b1 + 24576" "buf' ! 7 = b1 + 28672"
    using assms(4) len by (simp_all add: buf'_def nth_list_update)
  have first: "buf' ! 0 = b1"
    by (rule nth)
  have "[0..<7] = [0, 1, 2, 3, 4, 5, 6]"
    by (simp add: upt_rec)
  then have diffs: "map (\<lambda>i. buf' ! Suc i - buf' ! i) [0..<7] =
      [4096, 4096, 4096, 4096, 4096, 4096, 4096]"
    using nth by (simp add: numeral_2_eq_2 [symmetric] numeral_3_eq_3 [symmetric]
      eval_nat_numeral(3) [symmetric])
  show ?thesis
    unfolding b1 by (intro exI [of _ buf'] exI [of _ d'] conjI run first diffs)
qed

theorem allocate_bulk_contiguous_on_fresh_instance_witness:
  "Director_create example_layout example_system 0 False 1 1 1 2 0 = Inr (Some example_director) \<and>
   (\<exists>buf' d'.
     Director_allocateBulk (Suc (Suc 0)) example_director 4096 8 (replicate 8 0) True =
       Inr (8, buf', d') \<and>
     buf' ! 0 = base (qa_at example_director 1) \<and>
     map (\<lambda>i. buf' ! Suc i - buf' ! i) [0..<7] = [4096, 4096, 4096, 4096, 4096, 4096, 4096])"
proof -
  have "\<exists>buf' d'.
     Director_allocateBulk (Suc (Suc 0)) example_director 4096 8 (replicate 8 0) True =
       Inr (8, buf', d') \<and>
     buf' ! 0 = base (qa_at example_director 1) \<and>
     map (\<lambda>i. buf' ! Suc i - buf' ! i) [0..<7] = [4096, 4096, 4096, 4096, 4096, 4096, 4096]"
    by (rule allocate_bulk_contiguous_on_fresh_instance [OF Director_create_example])
      simp_all
  with Director_create_example show ?thesis
    by (rule conjI)
qed

end
